theory Spec2Isabelle
  imports Main "HOL-Library.Sublist"
begin

section \<open>The registry client of \<open>pkg/registry.go\<close>\<close>

text \<open>
  The client asks a container registry whether an image has a tag: first anonymously,
  then, when that attempt ends in an error, with a bearer token found through a cascade
  of environment variables and one token exchange.

  Everything the Go code does beyond computing values is explicit here:
  \<^item> a Go function returning \<open>(v, error)\<close> returns the pair \<open>(v, err)\<close> with
    \<open>err :: error option\<close>, \<open>None\<close> being \<open>nil\<close>;
  \<^item> every call of \<open>os.Getenv\<close> and of \<open>HttpClient.Do\<close> is appended to a trace,
    which each function takes and returns;
  \<^item> the process environment and the two standard-library functions whose behaviour the
    program does not fix (\<open>http.NewRequest\<close>, \<open>json.Unmarshal\<close>) are fields of a
    \<open>world\<close>; the HTTP client is the field of the client struct, as in the source.
\<close>

subsection \<open>Data\<close>

type_synonym bytes = string

text \<open>
  A Go \<open>error\<close>: either made by this program with \<open>fmt.Errorf\<close> (the formatted
  message), or handed over by the standard library (\<open>net/http\<close>, \<open>io\<close>,
  \<open>encoding/json\<close>).
\<close>

datatype error = Errorf string | LibError string

text \<open>What \<open>retrieve\<close> puts into a request: method, URL and the \<open>Authorization\<close> header.\<close>

record request =
  req_method :: string
  req_url :: string
  req_authorization :: string

datatype event = Getenv string | Do request

type_synonym trace = "event list"

text \<open>
  What one call of \<open>HttpClient.Do\<close> gives back: an error, or a response with its status
  code and the outcome of reading its body with \<open>io.ReadAll\<close>.
\<close>

datatype reply = DoError error | Response int "error + bytes"

text \<open>
  The struct \<open>RegistryClient\<close>. \<open>HttpClient\<close> is a configured client (in Go a non-nil
  \<open>*http.Client\<close>); its answer may depend on everything that happened before, so it
  takes the trace so far.
\<close>

record RegistryClient =
  RegistryName :: string
  RegistryURL :: string
  ImagePath :: string
  HttpClient :: "trace \<Rightarrow> request \<Rightarrow> reply"

text \<open>
  The surroundings of the program: the process environment, the error (if any) with which
  \<open>http.NewRequest method url nil\<close> refuses to build a request, and the result of
  \<open>json.Unmarshal\<close> into a \<open>tokenResponse\<close> (an error, or the value of the field
  \<open>Token\<close>, which is empty when the body has no \<open>token\<close> member).
\<close>

record world =
  environ :: "string \<rightharpoonup> string"
  NewRequest :: "string \<Rightarrow> string \<Rightarrow> error option"
  Unmarshal :: "bytes \<Rightarrow> error + string"

subsection \<open>Standard-library functions the program computes with\<close>

text \<open>\<open>os.Getenv\<close>: the value of the variable, the empty string when it is not set.\<close>

definition getenv :: "world \<Rightarrow> string \<Rightarrow> string" where
  "getenv w key = (case environ w key of None \<Rightarrow> [] | Some v \<Rightarrow> v)"

text \<open>The call itself, which leaves its mark in the trace.\<close>

definition os_Getenv :: "world \<Rightarrow> string \<Rightarrow> trace \<Rightarrow> string \<times> trace" where
  "os_Getenv w key tr = (getenv w key, tr @ [Getenv key])"

text \<open>The verb \<open>%d\<close> of \<open>fmt\<close>: a Go \<open>int\<close> in decimal.\<close>

fun decimal :: "nat \<Rightarrow> string" where
  "decimal n =
     (if n < 10 then [''0123456789'' ! n]
      else decimal (n div 10) @ [''0123456789'' ! (n mod 10)])"

declare decimal.simps [simp del]

definition Sprintf_d :: "int \<Rightarrow> string" where
  "Sprintf_d i = (if i < 0 then CHR ''-'' # decimal (nat (- i)) else decimal (nat i))"

text \<open>
  \<open>base64.StdEncoding.EncodeToString\<close>: the alphabet of RFC 4648, three bytes to four
  characters, the last group padded with \<open>=\<close>.
\<close>

definition encodeStd :: string where
  "encodeStd = ''ABCDEFGHIJKLMNOPQRSTUVWXYZabcdefghijklmnopqrstuvwxyz0123456789+/''"

definition encode :: "nat \<Rightarrow> char" where
  "encode v = encodeStd ! (v mod 64)"

fun EncodeToString :: "bytes \<Rightarrow> string" where
  "EncodeToString [] = []"
| "EncodeToString [a] =
     (let val = of_char a * 65536
      in [encode (val div 262144), encode (val div 4096), CHR ''='', CHR ''=''])"
| "EncodeToString [a, b] =
     (let val = of_char a * 65536 + of_char b * 256
      in [encode (val div 262144), encode (val div 4096), encode (val div 64), CHR ''=''])"
| "EncodeToString (a # b # c # src) =
     (let val = of_char a * 65536 + of_char b * 256 + of_char c
      in [encode (val div 262144), encode (val div 4096), encode (val div 64), encode val]
         @ EncodeToString src)"

subsection \<open>The program\<close>

definition authAPI :: "string \<Rightarrow> string \<Rightarrow> string \<Rightarrow> string" where
  "authAPI a b c =
     ''https://'' @ a @ ''/v2/auth?service='' @ b @ ''&scope=repository:'' @ c @ '':pull''"

definition manifestAPI :: "string \<Rightarrow> string \<Rightarrow> string \<Rightarrow> string" where
  "manifestAPI a b c = ''https://'' @ a @ ''/v2/'' @ b @ ''/manifests/'' @ c"

definition retrieve ::
  "RegistryClient \<Rightarrow> world \<Rightarrow> string \<Rightarrow> string \<Rightarrow> string \<Rightarrow> trace
     \<Rightarrow> (int \<times> bytes \<times> error option) \<times> trace" where
  "retrieve r w method endpoint auth tr =
     (case NewRequest w method endpoint of
        Some err \<Rightarrow> ((- 1, [], Some err), tr)
      | None \<Rightarrow>
          (let req = \<lparr>req_method = method, req_url = endpoint, req_authorization = auth\<rparr>;
               tr' = tr @ [Do req]
           in case HttpClient r tr req of
                DoError err \<Rightarrow> ((- 1, [], Some err), tr')
              | Response status (Inl err) \<Rightarrow> ((- 1, [], Some err), tr')
              | Response status (Inr b) \<Rightarrow> ((status, b, None), tr')))"

definition retrieveBearerToken ::
  "RegistryClient \<Rightarrow> world \<Rightarrow> string \<Rightarrow> trace \<Rightarrow> (string \<times> error option) \<times> trace" where
  "retrieveBearerToken r w auth tr =
     (let endpoint = authAPI (RegistryURL r) (RegistryURL r) (ImagePath r)
      in case retrieve r w ''GET'' endpoint (''Basic '' @ auth) tr of
           ((status, res, Some err), tr') \<Rightarrow> (([], Some err), tr')
         | ((status, res, None), tr') \<Rightarrow>
             if status \<noteq> 200
             then (([], Some (Errorf (''unexpected response code '' @ Sprintf_d status))), tr')
             else (case Unmarshal w res of
                     Inl err \<Rightarrow> (([], Some err), tr')
                   | Inr token \<Rightarrow> ((token, None), tr')))"

definition checkManifestForTag ::
  "RegistryClient \<Rightarrow> world \<Rightarrow> string \<Rightarrow> string \<Rightarrow> trace \<Rightarrow> (bool \<times> error option) \<times> trace" where
  "checkManifestForTag r w bearer tag tr =
     (let endpoint = manifestAPI (RegistryURL r) (ImagePath r) tag;
          auth = (if bearer \<noteq> [] then ''Bearer '' @ bearer else [])
      in case retrieve r w ''HEAD'' endpoint auth tr of
           ((status, res, Some err), tr') \<Rightarrow> ((False, Some err), tr')
         | ((status, res, None), tr') \<Rightarrow>
             if status = 200 then ((True, None), tr')
             else if status = 404 then ((False, None), tr')
             else ((False,
                    Some (Errorf (''unexpected response registry API: '' @ Sprintf_d status))),
                   tr'))"

definition getAuthTokenFromCredentials ::
  "RegistryClient \<Rightarrow> world \<Rightarrow> trace \<Rightarrow> (string \<times> error option) \<times> trace" where
  "getAuthTokenFromCredentials r w tr =
     (let userEnvName = RegistryName r @ ''_USER'';
          passEnvName = RegistryName r @ ''_PASSWORD'';
          (user, tr1) = os_Getenv w userEnvName tr;
          (pass, tr2) = os_Getenv w passEnvName tr1
      in if user = [] \<or> pass = []
         then (([], Some (Errorf (''could not get credentials for '' @ RegistryName r))), tr2)
         else ((EncodeToString (user @ '':'' @ pass), None), tr2))"

definition getBearerTokenFromAuthToken ::
  "RegistryClient \<Rightarrow> world \<Rightarrow> trace \<Rightarrow> (string \<times> error option) \<times> trace" where
  "getBearerTokenFromAuthToken r w tr =
     (let authTokenEnvName = RegistryName r @ ''_AUTH'';
          (authToken, tr1) = os_Getenv w authTokenEnvName tr
      in if authToken = []
         then (case getAuthTokenFromCredentials r w tr1 of
                 ((t, Some err), tr2) \<Rightarrow> (([], Some err), tr2)
               | ((t, None), tr2) \<Rightarrow>
                   if t = []
                   then (([], Some (Errorf (''could not get auth token for '' @ RegistryName r))),
                         tr2)
                   else retrieveBearerToken r w t tr2)
         else retrieveBearerToken r w authToken tr1)"

text \<open>Lines 131 to 134, the end of \<open>getBearerToken\<close>, reached with a candidate token.\<close>

definition getBearerToken_result ::
  "RegistryClient \<Rightarrow> string \<Rightarrow> trace \<Rightarrow> (string \<times> error option) \<times> trace" where
  "getBearerToken_result r bearerToken tr =
     (if bearerToken \<noteq> [] then ((bearerToken, None), tr)
      else (([], Some (Errorf (''could not get a bearer token for '' @ RegistryName r))), tr))"

definition getBearerToken ::
  "RegistryClient \<Rightarrow> world \<Rightarrow> trace \<Rightarrow> (string \<times> error option) \<times> trace" where
  "getBearerToken r w tr =
     (let bearerTokenEnvName = RegistryName r @ ''_TOKEN'';
          (bearerToken, tr1) = os_Getenv w bearerTokenEnvName tr
      in if bearerToken \<noteq> [] then ((bearerToken, None), tr1)
         else (case getBearerTokenFromAuthToken r w tr1 of
                 ((bearerToken, Some err), tr2) \<Rightarrow>
                   if RegistryName r \<noteq> ''GHCR_IO'' then (([], Some err), tr2)
                   else (let (github_token, tr3) = os_Getenv w ''GITHUB_TOKEN'' tr2
                         in if github_token = [] then (([], Some err), tr3)
                            else getBearerToken_result r (EncodeToString github_token) tr3)
               | ((bearerToken, None), tr2) \<Rightarrow> getBearerToken_result r bearerToken tr2))"

definition IsTagExist ::
  "RegistryClient \<Rightarrow> world \<Rightarrow> string \<Rightarrow> trace \<Rightarrow> (bool \<times> error option) \<times> trace" where
  "IsTagExist r w tag tr =
     (case checkManifestForTag r w [] tag tr of
        ((found, None), tr1) \<Rightarrow> ((found, None), tr1)
      | ((found, Some e), tr1) \<Rightarrow>
          (case getBearerToken r w tr1 of
             ((bearerToken, Some err), tr2) \<Rightarrow> ((False, Some err), tr2)
           | ((bearerToken, None), tr2) \<Rightarrow> checkManifestForTag r w bearerToken tag tr2))"


subsection \<open>Observing a run\<close>

text \<open>The HTTP requests of a trace, in the order they were issued.\<close>

fun requests :: "trace \<Rightarrow> request list" where
  "requests [] = []"
| "requests (Do q # tr) = q # requests tr"
| "requests (Getenv key # tr) = requests tr"

text \<open>
  The request \<open>checkManifestForTag\<close> hands to \<open>retrieve\<close> (lines 67 to 72) and the one
  \<open>retrieveBearerToken\<close> hands to it (lines 51 and 52), with the format strings
  \<open>manifestAPI\<close> and \<open>authAPI\<close> filled in.
\<close>

definition manifest_request :: "RegistryClient \<Rightarrow> string \<Rightarrow> string \<Rightarrow> request" where
  "manifest_request r bearer tag =
     \<lparr>req_method = ''HEAD'',
      req_url = ''https://'' @ RegistryURL r @ ''/v2/'' @ ImagePath r @ ''/manifests/'' @ tag,
      req_authorization = (if bearer = [] then [] else ''Bearer '' @ bearer)\<rparr>"

definition token_request :: "RegistryClient \<Rightarrow> string \<Rightarrow> request" where
  "token_request r authToken =
     \<lparr>req_method = ''GET'',
      req_url = ''https://'' @ RegistryURL r @ ''/v2/auth?service='' @ RegistryURL r
                @ ''&scope=repository:'' @ ImagePath r @ '':pull'',
      req_authorization = ''Basic '' @ authToken\<rparr>"

subsection \<open>Example registries\<close>

text \<open>
  Concrete surroundings on which the theorems below are run: a world in which every
  request can be built and the token response is parsed for two bodies, a public
  registry knowing the tag \<open>22.04\<close>, and a private registry that answers 401 unless the
  request carries the basic credentials \<open>u:p\<close> (token exchange) or one of the bearer
  tokens \<open>abc\<close> and \<open>eHl6\<close> (manifest).
\<close>

definition token_body :: bytes where
  \<open>token_body = ''{"token":"abc"}''\<close>

definition example_world :: "(string \<rightharpoonup> string) \<Rightarrow> world" where
  "example_world env =
     \<lparr>environ = env,
      NewRequest = (\<lambda>method url. None),
      Unmarshal = (\<lambda>body. if body = token_body then Inr ''abc''
                          else if body = ''{}'' then Inr []
                          else Inl (LibError ''unexpected end of JSON input''))\<rparr>"

definition public_registry :: "trace \<Rightarrow> request \<Rightarrow> reply" where
  "public_registry tr q =
     (if req_url q = ''https://ghcr.io/v2/cybozu/ubuntu/manifests/22.04''
      then Response 200 (Inr []) else Response 404 (Inr []))"

definition private_registry :: "bytes \<Rightarrow> trace \<Rightarrow> request \<Rightarrow> reply" where
  "private_registry body tr q =
     (if req_method q = ''GET''
      then (if req_authorization q = ''Basic dTpw'' then Response 200 (Inr body)
            else Response 401 (Inr []))
      else if req_authorization q = ''Bearer abc'' \<or> req_authorization q = ''Bearer eHl6''
      then Response 200 (Inr [])
      else Response 401 (Inr []))"

definition public_client :: RegistryClient where
  "public_client =
     \<lparr>RegistryName = ''GHCR_IO'', RegistryURL = ''ghcr.io'', ImagePath = ''cybozu/ubuntu'',
      HttpClient = public_registry\<rparr>"

definition private_client :: "string \<Rightarrow> bytes \<Rightarrow> RegistryClient" where
  "private_client name body =
     \<lparr>RegistryName = name, RegistryURL = ''ghcr.io'', ImagePath = ''cybozu/ubuntu'',
      HttpClient = private_registry body\<rparr>"

section \<open>Properties\<close>

subsection \<open>Library functions and requests\<close>

lemma EncodeToString_Nil_iff: "EncodeToString src = [] \<longleftrightarrow> src = []"
  by (cases src rule: EncodeToString.cases) (simp_all add: Let_def)

lemma getenv_Some: "environ w key = Some v \<Longrightarrow> getenv w key = v"
  by (simp add: getenv_def)

lemma requests_append [simp]: "requests (tr @ tr') = requests tr @ requests tr'"
  by (induction tr rule: requests.induct) simp_all

lemma manifest_request_method [simp]: "req_method (manifest_request r b tag) = ''HEAD''"
  by (simp add: manifest_request_def)

lemma retrieve_refused:
  "NewRequest w m e = Some err \<Longrightarrow> retrieve r w m e a tr = ((- 1, [], Some err), tr)"
  by (simp add: retrieve_def)

lemma retrieve_sent:
  "NewRequest w m e = None \<Longrightarrow>
   retrieve r w m e a tr =
     ((case HttpClient r tr \<lparr>req_method = m, req_url = e, req_authorization = a\<rparr> of
         DoError err \<Rightarrow> (- 1, [], Some err)
       | Response status (Inl err) \<Rightarrow> (- 1, [], Some err)
       | Response status (Inr b) \<Rightarrow> (status, b, None)),
      tr @ [Do \<lparr>req_method = m, req_url = e, req_authorization = a\<rparr>])"
  by (simp add: retrieve_def Let_def split: reply.splits sum.splits)

lemma checkManifestForTag_nil_error:
  assumes "checkManifestForTag r w bearer tag tr = ((found, None), tr')"
  shows "tr' = tr @ [Do (manifest_request r bearer tag)]"
  using assms
  by (auto simp: checkManifestForTag_def manifest_request_def manifestAPI_def retrieve_def Let_def
      split: option.splits reply.splits sum.splits if_splits)

subsection \<open>The functions of the cascade, case by case\<close>

lemma getBearerToken_env_token:
  "getenv w (RegistryName r @ ''_TOKEN'') \<noteq> [] \<Longrightarrow>
   getBearerToken r w tr =
     ((getenv w (RegistryName r @ ''_TOKEN''), None), tr @ [Getenv (RegistryName r @ ''_TOKEN'')])"
  by (simp add: getBearerToken_def os_Getenv_def Let_def)

lemma getAuthTokenFromCredentials_eq:
  "getAuthTokenFromCredentials r w tr =
     ((if getenv w (RegistryName r @ ''_USER'') = [] \<or> getenv w (RegistryName r @ ''_PASSWORD'') = []
       then ([], Some (Errorf (''could not get credentials for '' @ RegistryName r)))
       else (EncodeToString (getenv w (RegistryName r @ ''_USER'') @ '':''
                             @ getenv w (RegistryName r @ ''_PASSWORD'')), None)),
      tr @ [Getenv (RegistryName r @ ''_USER''), Getenv (RegistryName r @ ''_PASSWORD'')])"
  by (simp add: getAuthTokenFromCredentials_def os_Getenv_def Let_def)

lemma getBearerTokenFromAuthToken_eq:
  "getBearerTokenFromAuthToken r w tr =
     (if getenv w (RegistryName r @ ''_AUTH'') \<noteq> []
      then retrieveBearerToken r w (getenv w (RegistryName r @ ''_AUTH''))
             (tr @ [Getenv (RegistryName r @ ''_AUTH'')])
      else if getenv w (RegistryName r @ ''_USER'') = []
              \<or> getenv w (RegistryName r @ ''_PASSWORD'') = []
      then (([], Some (Errorf (''could not get credentials for '' @ RegistryName r))),
            tr @ [Getenv (RegistryName r @ ''_AUTH''), Getenv (RegistryName r @ ''_USER''),
                  Getenv (RegistryName r @ ''_PASSWORD'')])
      else retrieveBearerToken r w
             (EncodeToString (getenv w (RegistryName r @ ''_USER'') @ '':''
                              @ getenv w (RegistryName r @ ''_PASSWORD'')))
             (tr @ [Getenv (RegistryName r @ ''_AUTH''), Getenv (RegistryName r @ ''_USER''),
                    Getenv (RegistryName r @ ''_PASSWORD'')]))"
  by (simp add: getBearerTokenFromAuthToken_def getAuthTokenFromCredentials_eq os_Getenv_def
      EncodeToString_Nil_iff Let_def)

lemma retrieveBearerToken_sent:
  "NewRequest w ''GET'' (req_url (token_request r a)) = None \<Longrightarrow>
   retrieveBearerToken r w a tr =
     ((case HttpClient r tr (token_request r a) of
         DoError err \<Rightarrow> ([], Some err)
       | Response status (Inl err) \<Rightarrow> ([], Some err)
       | Response status (Inr body) \<Rightarrow>
           if status \<noteq> 200
           then ([], Some (Errorf (''unexpected response code '' @ Sprintf_d status)))
           else (case Unmarshal w body of
                   Inl err \<Rightarrow> ([], Some err)
                 | Inr token \<Rightarrow> (token, None))),
      tr @ [Do (token_request r a)])"
  by (simp add: retrieveBearerToken_def token_request_def authAPI_def retrieve_sent
      split: reply.splits sum.splits)

subsection \<open>The example surroundings, evaluated\<close>

lemma example_world_simps [simp]:
  "environ (example_world env) = env"
  "NewRequest (example_world env) m u = None"
  "Unmarshal (example_world env) token_body = Inr ''abc''"
  "Unmarshal (example_world env) ''{}'' = Inr []"
  by (simp_all add: example_world_def token_body_def)

lemma getenv_example [simp]:
  "getenv (example_world env) key = (case env key of None \<Rightarrow> [] | Some v \<Rightarrow> v)"
  by (simp add: getenv_def)

lemma public_client_simps [simp]:
  "RegistryName public_client = ''GHCR_IO''"
  "RegistryURL public_client = ''ghcr.io''"
  "ImagePath public_client = ''cybozu/ubuntu''"
  "HttpClient public_client = public_registry"
  by (simp_all add: public_client_def)

lemma private_client_simps [simp]:
  "RegistryName (private_client name body) = name"
  "RegistryURL (private_client name body) = ''ghcr.io''"
  "ImagePath (private_client name body) = ''cybozu/ubuntu''"
  "HttpClient (private_client name body) = private_registry body"
  by (simp_all add: private_client_def)

lemma public_registry_22_04:
  "public_registry tr (manifest_request public_client b ''22.04'') = Response 200 (Inr [])"
  by (simp add: public_registry_def manifest_request_def)

lemma public_registry_23_10:
  "public_registry tr (manifest_request public_client b ''23.10'') = Response 404 (Inr [])"
  by (simp add: public_registry_def manifest_request_def)

lemma private_registry_manifest:
  "private_registry body tr (manifest_request (private_client name body') b tag) =
     (if b = ''abc'' \<or> b = ''eHl6'' then Response 200 (Inr []) else Response 401 (Inr []))"
  by (simp add: private_registry_def manifest_request_def)

lemma private_registry_token:
  "private_registry body tr (token_request (private_client name body') a) =
     (if a = ''dTpw'' then Response 200 (Inr body) else Response 401 (Inr []))"
  by (simp add: private_registry_def token_request_def)

lemma checkManifestForTag_sent:
  "NewRequest w ''HEAD'' (req_url (manifest_request r b tag)) = None \<Longrightarrow>
   checkManifestForTag r w b tag tr =
     ((case HttpClient r tr (manifest_request r b tag) of
         DoError err \<Rightarrow> (False, Some err)
       | Response status (Inl err) \<Rightarrow> (False, Some err)
       | Response status (Inr body) \<Rightarrow>
           if status = 200 then (True, None)
           else if status = 404 then (False, None)
           else (False, Some (Errorf (''unexpected response registry API: '' @ Sprintf_d status)))),
      tr @ [Do (manifest_request r b tag)])"
  by (cases "b = []")
    (simp_all add: checkManifestForTag_def manifest_request_def manifestAPI_def retrieve_sent
      split: reply.splits sum.splits)

lemma Sprintf_d_401: "Sprintf_d 401 = ''401''"
  by (simp add: Sprintf_d_def decimal.simps)

subsection \<open>The anonymous attempt\<close>

text \<open>
  C1. For every tag: when the anonymous manifest check (empty bearer token) returns
  without an error, \<open>IsTagExist\<close> returns the boolean of that check and no error, and the
  run ends there. The trace of the whole call is the starting trace followed by the one
  anonymous \<open>HEAD\<close> request: no environment variable was read, no token exchange and no
  second manifest check took place. This holds for \<open>found = True\<close> (status 200) and for
  \<open>found = False\<close> (status 404) alike.
\<close>

theorem IsTagExist_anonymous_answer:
  assumes "checkManifestForTag r w [] tag tr = ((found, None), tr1)"
  shows "IsTagExist r w tag tr = ((found, None), tr1) \<and>
         tr1 = tr @ [Do (manifest_request r [] tag)]"
  using assms checkManifestForTag_nil_error [OF assms]
  by (simp add: IsTagExist_def)

text \<open>On the public registry: tag \<open>22.04\<close> exists (200), tag \<open>23.10\<close> does not (404).\<close>

theorem IsTagExist_anonymous_answer_witness:
  "checkManifestForTag public_client (example_world Map.empty) [] ''22.04'' []
     = ((True, None), [Do (manifest_request public_client [] ''22.04'')]) \<and>
   IsTagExist public_client (example_world Map.empty) ''22.04'' []
     = ((True, None), [Do (manifest_request public_client [] ''22.04'')]) \<and>
   checkManifestForTag public_client (example_world Map.empty) [] ''23.10'' []
     = ((False, None), [Do (manifest_request public_client [] ''23.10'')]) \<and>
   IsTagExist public_client (example_world Map.empty) ''23.10'' []
     = ((False, None), [Do (manifest_request public_client [] ''23.10'')])"
proof -
  let ?w = "example_world Map.empty"
  have found: "checkManifestForTag public_client ?w [] ''22.04'' []
      = ((True, None), [Do (manifest_request public_client [] ''22.04'')])"
    by (simp add: checkManifestForTag_sent public_registry_22_04)
  have missing: "checkManifestForTag public_client ?w [] ''23.10'' []
      = ((False, None), [Do (manifest_request public_client [] ''23.10'')])"
    by (simp add: checkManifestForTag_sent public_registry_23_10)
  from IsTagExist_anonymous_answer [OF found] IsTagExist_anonymous_answer [OF missing]
    found missing
  show ?thesis by simp
qed

text \<open>
  C2. For every bearer token and tag: when the \<open>HEAD\<close> request for the manifest is
  answered with a status (and the body was read), the check returns \<open>(true, nil)\<close> for
  200, \<open>(false, nil)\<close> for 404, and for every other status \<open>false\<close> with the error
  \<open>unexpected response registry API: <status>\<close>.
\<close>

theorem checkManifestForTag_status:
  assumes "NewRequest w ''HEAD'' (req_url (manifest_request r bearer tag)) = None"
      and "HttpClient r tr (manifest_request r bearer tag) = Response status (Inr body)"
  shows "checkManifestForTag r w bearer tag tr =
           ((if status = 200 then (True, None)
             else if status = 404 then (False, None)
             else (False,
                   Some (Errorf (''unexpected response registry API: '' @ Sprintf_d status)))),
            tr @ [Do (manifest_request r bearer tag)])"
  using assms
  by (cases "bearer = []")
    (simp_all add: checkManifestForTag_def manifest_request_def manifestAPI_def retrieve_sent)

text \<open>The three kinds of status: 200 and 404 from the public registry, 401 from the private one.\<close>

theorem checkManifestForTag_status_witness:
  "NewRequest (example_world Map.empty) ''HEAD''
     (req_url (manifest_request public_client ''abc'' ''22.04'')) = None \<and>
   HttpClient public_client [] (manifest_request public_client ''abc'' ''22.04'')
     = Response 200 (Inr []) \<and>
   checkManifestForTag public_client (example_world Map.empty) ''abc'' ''22.04'' []
     = ((True, None), [Do (manifest_request public_client ''abc'' ''22.04'')]) \<and>
   HttpClient public_client [] (manifest_request public_client ''abc'' ''23.10'')
     = Response 404 (Inr []) \<and>
   checkManifestForTag public_client (example_world Map.empty) ''abc'' ''23.10'' []
     = ((False, None), [Do (manifest_request public_client ''abc'' ''23.10'')]) \<and>
   HttpClient (private_client ''GHCR_IO'' token_body) []
       (manifest_request (private_client ''GHCR_IO'' token_body) [] ''22.04'')
     = Response 401 (Inr []) \<and>
   checkManifestForTag (private_client ''GHCR_IO'' token_body) (example_world Map.empty)
       [] ''22.04'' []
     = ((False, Some (Errorf ''unexpected response registry API: 401'')),
        [Do (manifest_request (private_client ''GHCR_IO'' token_body) [] ''22.04'')])"
proof -
  let ?w = "example_world Map.empty"
  let ?p = "private_client ''GHCR_IO'' token_body"
  have new: "NewRequest ?w ''HEAD'' u = None" for u
    by simp
  have ok: "HttpClient public_client [] (manifest_request public_client ''abc'' ''22.04'')
      = Response 200 (Inr [])"
    by (simp add: public_registry_22_04)
  have missing: "HttpClient public_client [] (manifest_request public_client ''abc'' ''23.10'')
      = Response 404 (Inr [])"
    by (simp add: public_registry_23_10)
  have denied: "HttpClient ?p [] (manifest_request ?p [] ''22.04'') = Response 401 (Inr [])"
    by (simp add: private_registry_manifest)
  from checkManifestForTag_status [OF new ok] checkManifestForTag_status [OF new missing]
    checkManifestForTag_status [OF new denied] new ok missing denied
  show ?thesis by (simp add: Sprintf_d_401)
qed

text \<open>
  C3. For every tag: when the anonymous manifest check ends in an error \<open>e\<close>, the result
  of \<open>IsTagExist\<close> is made of what follows alone, whatever \<open>e\<close> is. The bearer token is
  acquired next (from the trace the anonymous check left); if that fails with \<open>err\<close>,
  \<open>IsTagExist\<close> returns \<open>(false, err)\<close>; if it yields a token, \<open>IsTagExist\<close> returns
  what the manifest check with that token returns, result or error.
\<close>

theorem IsTagExist_anonymous_error_swallowed:
  assumes "checkManifestForTag r w [] tag tr = ((found, Some e), tr1)"
  shows "(\<forall>t err tr2. getBearerToken r w tr1 = ((t, Some err), tr2) \<longrightarrow>
            IsTagExist r w tag tr = ((False, Some err), tr2)) \<and>
         (\<forall>t tr2. getBearerToken r w tr1 = ((t, None), tr2) \<longrightarrow>
            IsTagExist r w tag tr = checkManifestForTag r w t tag tr2)"
  using assms by (simp add: IsTagExist_def)


text \<open>
  On the private registry the anonymous check is refused with 401. With no variable set,
  token acquisition fails for want of credentials and that error is the one returned;
  with \<open>GHCR_IO_TOKEN=abc\<close> the retried check succeeds. In neither run does the error
  of the anonymous check come back.
\<close>

theorem IsTagExist_anonymous_error_swallowed_witness:
  "checkManifestForTag (private_client ''GHCR_IO'' token_body) (example_world Map.empty)
       [] ''22.04'' []
     = ((False, Some (Errorf ''unexpected response registry API: 401'')),
        [Do (manifest_request (private_client ''GHCR_IO'' token_body) [] ''22.04'')]) \<and>
   getBearerToken (private_client ''GHCR_IO'' token_body) (example_world Map.empty)
       [Do (manifest_request (private_client ''GHCR_IO'' token_body) [] ''22.04'')]
     = (([], Some (Errorf ''could not get credentials for GHCR_IO'')),
        [Do (manifest_request (private_client ''GHCR_IO'' token_body) [] ''22.04''),
         Getenv ''GHCR_IO_TOKEN'', Getenv ''GHCR_IO_AUTH'', Getenv ''GHCR_IO_USER'',
         Getenv ''GHCR_IO_PASSWORD'', Getenv ''GITHUB_TOKEN'']) \<and>
   IsTagExist (private_client ''GHCR_IO'' token_body) (example_world Map.empty) ''22.04'' []
     = ((False, Some (Errorf ''could not get credentials for GHCR_IO'')),
        [Do (manifest_request (private_client ''GHCR_IO'' token_body) [] ''22.04''),
         Getenv ''GHCR_IO_TOKEN'', Getenv ''GHCR_IO_AUTH'', Getenv ''GHCR_IO_USER'',
         Getenv ''GHCR_IO_PASSWORD'', Getenv ''GITHUB_TOKEN'']) \<and>
   checkManifestForTag (private_client ''GHCR_IO'' token_body)
       (example_world [''GHCR_IO_TOKEN'' \<mapsto> ''abc'']) [] ''22.04'' []
     = ((False, Some (Errorf ''unexpected response registry API: 401'')),
        [Do (manifest_request (private_client ''GHCR_IO'' token_body) [] ''22.04'')]) \<and>
   getBearerToken (private_client ''GHCR_IO'' token_body)
       (example_world [''GHCR_IO_TOKEN'' \<mapsto> ''abc''])
       [Do (manifest_request (private_client ''GHCR_IO'' token_body) [] ''22.04'')]
     = ((''abc'', None),
        [Do (manifest_request (private_client ''GHCR_IO'' token_body) [] ''22.04''),
         Getenv ''GHCR_IO_TOKEN'']) \<and>
   IsTagExist (private_client ''GHCR_IO'' token_body)
       (example_world [''GHCR_IO_TOKEN'' \<mapsto> ''abc'']) ''22.04'' []
     = ((True, None),
        [Do (manifest_request (private_client ''GHCR_IO'' token_body) [] ''22.04''),
         Getenv ''GHCR_IO_TOKEN'',
         Do (manifest_request (private_client ''GHCR_IO'' token_body) ''abc'' ''22.04'')])"
proof -
  let ?p = "private_client ''GHCR_IO'' token_body"
  let ?w0 = "example_world Map.empty"
  let ?w1 = "example_world [''GHCR_IO_TOKEN'' \<mapsto> ''abc'']"
  let ?anon = "Do (manifest_request ?p [] ''22.04'')"
  have anon: "checkManifestForTag ?p (example_world env) [] ''22.04'' []
      = ((False, Some (Errorf ''unexpected response registry API: 401'')), [?anon])" for env
    by (simp add: checkManifestForTag_sent private_registry_manifest Sprintf_d_401)
  have none: "getBearerToken ?p ?w0 [?anon]
      = (([], Some (Errorf ''could not get credentials for GHCR_IO'')),
         [?anon, Getenv ''GHCR_IO_TOKEN'', Getenv ''GHCR_IO_AUTH'', Getenv ''GHCR_IO_USER'',
          Getenv ''GHCR_IO_PASSWORD'', Getenv ''GITHUB_TOKEN''])"
    by (simp add: getBearerToken_def getBearerTokenFromAuthToken_eq os_Getenv_def)
  have some: "getBearerToken ?p ?w1 [?anon] = ((''abc'', None), [?anon, Getenv ''GHCR_IO_TOKEN''])"
    by (simp add: getBearerToken_def os_Getenv_def)
  have retry: "checkManifestForTag ?p ?w1 ''abc'' ''22.04'' [?anon, Getenv ''GHCR_IO_TOKEN'']
      = ((True, None), [?anon, Getenv ''GHCR_IO_TOKEN'', Do (manifest_request ?p ''abc'' ''22.04'')])"
    by (simp add: checkManifestForTag_sent private_registry_manifest)
  from IsTagExist_anonymous_error_swallowed [OF anon [of Map.empty]] none
  have "IsTagExist ?p ?w0 ''22.04'' []
      = ((False, Some (Errorf ''could not get credentials for GHCR_IO'')),
         [?anon, Getenv ''GHCR_IO_TOKEN'', Getenv ''GHCR_IO_AUTH'', Getenv ''GHCR_IO_USER'',
          Getenv ''GHCR_IO_PASSWORD'', Getenv ''GITHUB_TOKEN''])"
    by simp
  moreover
  from IsTagExist_anonymous_error_swallowed [OF anon [of "[''GHCR_IO_TOKEN'' \<mapsto> ''abc'']"]]
    some retry
  have "IsTagExist ?p ?w1 ''22.04'' []
      = ((True, None), [?anon, Getenv ''GHCR_IO_TOKEN'', Do (manifest_request ?p ''abc'' ''22.04'')])"
    by simp
  ultimately show ?thesis
    using anon [of Map.empty] anon [of "[''GHCR_IO_TOKEN'' \<mapsto> ''abc'']"] none some
    by simp
qed

subsection \<open>Acquiring the bearer token\<close>


text \<open>
  C4. When \<open>{REGISTRY_NAME}_TOKEN\<close> is set to a non-empty value \<open>v\<close>, bearer-token
  acquisition returns \<open>v\<close> and no error, and all it did was read that one variable: no
  request was sent. After a failed anonymous check \<open>IsTagExist\<close> therefore is the
  manifest check with \<open>v\<close>, and the request of that check carries the header
  \<open>Authorization: Bearer v\<close>, with \<open>v\<close> unchanged.
\<close>

theorem getBearerToken_from_TOKEN:
  assumes "environ w (RegistryName r @ ''_TOKEN'') = Some v" and "v \<noteq> []"
  shows "getBearerToken r w tr = ((v, None), tr @ [Getenv (RegistryName r @ ''_TOKEN'')]) \<and>
         (\<forall>tag found e tr1.
            checkManifestForTag r w [] tag tr = ((found, Some e), tr1) \<longrightarrow>
            IsTagExist r w tag tr =
              checkManifestForTag r w v tag (tr1 @ [Getenv (RegistryName r @ ''_TOKEN'')])) \<and>
         (\<forall>tag tr'.
            NewRequest w ''HEAD'' (req_url (manifest_request r v tag)) = None \<longrightarrow>
            snd (checkManifestForTag r w v tag tr') =
              tr' @ [Do \<lparr>req_method = ''HEAD'',
                          req_url = ''https://'' @ RegistryURL r @ ''/v2/'' @ ImagePath r
                                    @ ''/manifests/'' @ tag,
                          req_authorization = ''Bearer '' @ v\<rparr>])"
proof (intro conjI allI impI)
  have "getenv w (RegistryName r @ ''_TOKEN'') = v"
    using assms(1) by (rule getenv_Some)
  with assms(2)
  show direct: "getBearerToken r w tr = ((v, None), tr @ [Getenv (RegistryName r @ ''_TOKEN'')])"
    for tr
    using getBearerToken_env_token [of w r tr] by simp
  show "IsTagExist r w tag tr =
          checkManifestForTag r w v tag (tr1 @ [Getenv (RegistryName r @ ''_TOKEN'')])"
    if "checkManifestForTag r w [] tag tr = ((found, Some e), tr1)" for tag found e tr1
    using that direct [of tr1] by (simp add: IsTagExist_def)
  show "snd (checkManifestForTag r w v tag tr') =
          tr' @ [Do \<lparr>req_method = ''HEAD'',
                      req_url = ''https://'' @ RegistryURL r @ ''/v2/'' @ ImagePath r
                                @ ''/manifests/'' @ tag,
                      req_authorization = ''Bearer '' @ v\<rparr>]"
    if "NewRequest w ''HEAD'' (req_url (manifest_request r v tag)) = None" for tag tr'
    using that assms(2) by (simp add: checkManifestForTag_sent) (simp add: manifest_request_def)
qed

text \<open>
  The private registry with \<open>GHCR_IO_TOKEN=abc\<close>: the token is used as it is, and the run
  of \<open>IsTagExist\<close> consists of the anonymous request, the reading of the variable and the
  request with \<open>Bearer abc\<close>.
\<close>

theorem getBearerToken_from_TOKEN_witness:
  "environ (example_world [''GHCR_IO_TOKEN'' \<mapsto> ''abc''])
     (RegistryName (private_client ''GHCR_IO'' token_body) @ ''_TOKEN'') = Some ''abc'' \<and>
   ''abc'' \<noteq> [] \<and>
   getBearerToken (private_client ''GHCR_IO'' token_body)
       (example_world [''GHCR_IO_TOKEN'' \<mapsto> ''abc'']) []
     = ((''abc'', None), [Getenv ''GHCR_IO_TOKEN'']) \<and>
   fst (IsTagExist (private_client ''GHCR_IO'' token_body)
          (example_world [''GHCR_IO_TOKEN'' \<mapsto> ''abc'']) ''22.04'' []) = (True, None) \<and>
   snd (IsTagExist (private_client ''GHCR_IO'' token_body)
          (example_world [''GHCR_IO_TOKEN'' \<mapsto> ''abc'']) ''22.04'' [])
     = [Do \<lparr>req_method = ''HEAD'',
             req_url = ''https://ghcr.io/v2/cybozu/ubuntu/manifests/22.04'',
             req_authorization = []\<rparr>,
        Getenv ''GHCR_IO_TOKEN'',
        Do \<lparr>req_method = ''HEAD'',
             req_url = ''https://ghcr.io/v2/cybozu/ubuntu/manifests/22.04'',
             req_authorization = ''Bearer abc''\<rparr>]"
proof -
  let ?p = "private_client ''GHCR_IO'' token_body"
  let ?w = "example_world [''GHCR_IO_TOKEN'' \<mapsto> ''abc'']"
  let ?anon = "Do (manifest_request ?p [] ''22.04'')"
  have set: "environ ?w (RegistryName ?p @ ''_TOKEN'') = Some ''abc''"
    by simp
  have nonempty: "''abc'' \<noteq> []"
    by simp
  have anon: "checkManifestForTag ?p ?w [] ''22.04'' []
      = ((False, Some (Errorf ''unexpected response registry API: 401'')), [?anon])"
    by (simp add: checkManifestForTag_sent private_registry_manifest Sprintf_d_401)
  have new: "NewRequest ?w ''HEAD'' (req_url (manifest_request ?p ''abc'' ''22.04'')) = None"
    by simp
  have retry: "fst (checkManifestForTag ?p ?w ''abc'' ''22.04'' [?anon, Getenv ''GHCR_IO_TOKEN''])
      = (True, None)"
    by (simp add: checkManifestForTag_sent private_registry_manifest)
  note inst = getBearerToken_from_TOKEN [OF set nonempty, of "[]"]
  from inst [THEN conjunct1]
  have direct: "getBearerToken ?p ?w [] = ((''abc'', None), [Getenv ''GHCR_IO_TOKEN''])"
    by simp
  from inst [THEN conjunct2, THEN conjunct1, rule_format, OF anon]
  have run: "IsTagExist ?p ?w ''22.04'' []
      = checkManifestForTag ?p ?w ''abc'' ''22.04'' [?anon, Getenv ''GHCR_IO_TOKEN'']"
    by simp
  from inst [THEN conjunct2, THEN conjunct2, rule_format, OF new,
      of "[?anon, Getenv ''GHCR_IO_TOKEN'']"]
  have sent: "snd (checkManifestForTag ?p ?w ''abc'' ''22.04'' [?anon, Getenv ''GHCR_IO_TOKEN''])
      = [?anon, Getenv ''GHCR_IO_TOKEN'',
         Do \<lparr>req_method = ''HEAD'',
              req_url = ''https://ghcr.io/v2/cybozu/ubuntu/manifests/22.04'',
              req_authorization = ''Bearer abc''\<rparr>]"
    by simp
  have "?anon = Do \<lparr>req_method = ''HEAD'',
      req_url = ''https://ghcr.io/v2/cybozu/ubuntu/manifests/22.04'',
      req_authorization = []\<rparr>"
    by (simp add: manifest_request_def)
  with set nonempty direct run retry sent show ?thesis
    by simp
qed

text \<open>
  C5. When \<open>{REGISTRY_NAME}_TOKEN\<close> supplies no bearer token, \<open>getBearerTokenFromAuthToken\<close>
  runs. The auth token it exchanges is the value of \<open>{REGISTRY_NAME}_AUTH\<close> if that is
  set; otherwise it is \<open>base64(user:pass)\<close> of \<open>{REGISTRY_NAME}_USER\<close> and
  \<open>{REGISTRY_NAME}_PASSWORD\<close>, and if one of the two is unset there is no exchange and
  the error is \<open>could not get credentials for <RegistryName>\<close>. As everywhere in the
  program, the variables are read with \<open>os.Getenv\<close>, for which "set" means "has a
  non-empty value" (see C10). The first conjunct is \<open>getAuthTokenFromCredentials\<close> by
  itself, the second the function that calls it.
\<close>

theorem getBearerTokenFromAuthToken_auth_token:
  "getAuthTokenFromCredentials r w tr =
     (let user = getenv w (RegistryName r @ ''_USER'');
          pass = getenv w (RegistryName r @ ''_PASSWORD'')
      in ((if user = [] \<or> pass = []
           then ([], Some (Errorf (''could not get credentials for '' @ RegistryName r)))
           else (EncodeToString (user @ '':'' @ pass), None)),
          tr @ [Getenv (RegistryName r @ ''_USER''), Getenv (RegistryName r @ ''_PASSWORD'')])) \<and>
   getBearerTokenFromAuthToken r w tr =
     (let auth = getenv w (RegistryName r @ ''_AUTH'');
          user = getenv w (RegistryName r @ ''_USER'');
          pass = getenv w (RegistryName r @ ''_PASSWORD'')
      in if auth \<noteq> []
         then retrieveBearerToken r w auth (tr @ [Getenv (RegistryName r @ ''_AUTH'')])
         else if user = [] \<or> pass = []
         then (([], Some (Errorf (''could not get credentials for '' @ RegistryName r))),
               tr @ [Getenv (RegistryName r @ ''_AUTH''), Getenv (RegistryName r @ ''_USER''),
                     Getenv (RegistryName r @ ''_PASSWORD'')])
         else retrieveBearerToken r w (EncodeToString (user @ '':'' @ pass))
                (tr @ [Getenv (RegistryName r @ ''_AUTH''), Getenv (RegistryName r @ ''_USER''),
                       Getenv (RegistryName r @ ''_PASSWORD'')]))"
  by (simp add: getBearerTokenFromAuthToken_eq getAuthTokenFromCredentials_eq Let_def)

text \<open>
  \<open>USER=u\<close> and \<open>PASSWORD=p\<close> give the auth token \<open>dTpw\<close>, which is \<open>base64("u:p")\<close>;
  \<open>AUTH=dTpw\<close> is exchanged as it is; with only \<open>USER\<close> set the acquisition fails.
\<close>

theorem getBearerTokenFromAuthToken_auth_token_witness:
  "EncodeToString ''u:p'' = ''dTpw'' \<and>
   getAuthTokenFromCredentials (private_client ''GHCR_IO'' token_body)
       (example_world [''GHCR_IO_USER'' \<mapsto> ''u'', ''GHCR_IO_PASSWORD'' \<mapsto> ''p'']) []
     = ((''dTpw'', None), [Getenv ''GHCR_IO_USER'', Getenv ''GHCR_IO_PASSWORD'']) \<and>
   getBearerTokenFromAuthToken (private_client ''GHCR_IO'' token_body)
       (example_world [''GHCR_IO_USER'' \<mapsto> ''u'', ''GHCR_IO_PASSWORD'' \<mapsto> ''p'']) []
     = retrieveBearerToken (private_client ''GHCR_IO'' token_body)
         (example_world [''GHCR_IO_USER'' \<mapsto> ''u'', ''GHCR_IO_PASSWORD'' \<mapsto> ''p'']) ''dTpw''
         [Getenv ''GHCR_IO_AUTH'', Getenv ''GHCR_IO_USER'', Getenv ''GHCR_IO_PASSWORD''] \<and>
   getBearerTokenFromAuthToken (private_client ''GHCR_IO'' token_body)
       (example_world [''GHCR_IO_AUTH'' \<mapsto> ''dTpw'']) []
     = retrieveBearerToken (private_client ''GHCR_IO'' token_body)
         (example_world [''GHCR_IO_AUTH'' \<mapsto> ''dTpw'']) ''dTpw'' [Getenv ''GHCR_IO_AUTH''] \<and>
   getBearerTokenFromAuthToken (private_client ''GHCR_IO'' token_body)
       (example_world [''GHCR_IO_USER'' \<mapsto> ''u'']) []
     = (([], Some (Errorf ''could not get credentials for GHCR_IO'')),
        [Getenv ''GHCR_IO_AUTH'', Getenv ''GHCR_IO_USER'', Getenv ''GHCR_IO_PASSWORD''])"
proof -
  let ?p = "private_client ''GHCR_IO'' token_body"
  have b64: "EncodeToString ''u:p'' = ''dTpw''"
    by (simp add: encode_def encodeStd_def)
  note inst = getBearerTokenFromAuthToken_auth_token [of ?p _ "[]"]
  from inst [of "example_world [''GHCR_IO_USER'' \<mapsto> ''u'', ''GHCR_IO_PASSWORD'' \<mapsto> ''p'']"]
    inst [of "example_world [''GHCR_IO_AUTH'' \<mapsto> ''dTpw'']"]
    inst [of "example_world [''GHCR_IO_USER'' \<mapsto> ''u'']"] b64
  show ?thesis by (simp add: Let_def encode_def encodeStd_def)
qed


text \<open>
  C6. Let \<open>{REGISTRY_NAME}_TOKEN\<close> supply no token, so that \<open>getBearerTokenFromAuthToken\<close>
  runs, and let it end in an error \<open>err\<close> (when the exchange was attempted, \<open>err\<close> is the
  error of the exchange). For the registry name \<open>GHCR_IO\<close>, \<open>GITHUB_TOKEN\<close> is read
  next: if it has a non-empty value, the bearer token is the base64 encoding of that
  value and nothing more is sent; if it is unset, \<open>err\<close> is returned. For every other
  registry name \<open>err\<close> is returned at once, and \<open>GITHUB_TOKEN\<close> is not even read.
\<close>

theorem getBearerToken_GHCR_IO_fallback:
  assumes "getenv w (RegistryName r @ ''_TOKEN'') = []"
      and "getBearerTokenFromAuthToken r w (tr @ [Getenv (RegistryName r @ ''_TOKEN'')])
             = ((t, Some err), tr2)"
  shows "getBearerToken r w tr =
           (if RegistryName r = ''GHCR_IO''
            then (if getenv w ''GITHUB_TOKEN'' \<noteq> []
                  then ((EncodeToString (getenv w ''GITHUB_TOKEN''), None),
                        tr2 @ [Getenv ''GITHUB_TOKEN''])
                  else (([], Some err), tr2 @ [Getenv ''GITHUB_TOKEN'']))
            else (([], Some err), tr2))"
  using assms
  by (simp add: getBearerToken_def getBearerToken_result_def os_Getenv_def EncodeToString_Nil_iff
      Let_def)

text \<open>
  The credentials \<open>x:y\<close> are refused by the private registry (401). As \<open>GHCR_IO\<close> with
  \<open>GITHUB_TOKEN=xyz\<close> the bearer token is \<open>eHl6\<close>, which is \<open>base64("xyz")\<close>; as
  \<open>GHCR_IO\<close> without \<open>GITHUB_TOKEN\<close>, and as \<open>QUAY_IO\<close> even with it, the error of the
  exchange comes back.
\<close>

theorem getBearerToken_GHCR_IO_fallback_witness:
  "EncodeToString ''xyz'' = ''eHl6'' \<and>
   getBearerTokenFromAuthToken (private_client ''GHCR_IO'' token_body)
       (example_world [''GHCR_IO_USER'' \<mapsto> ''x'', ''GHCR_IO_PASSWORD'' \<mapsto> ''y'',
                       ''GITHUB_TOKEN'' \<mapsto> ''xyz''])
       [Getenv ''GHCR_IO_TOKEN'']
     = (([], Some (Errorf ''unexpected response code 401'')),
        [Getenv ''GHCR_IO_TOKEN'', Getenv ''GHCR_IO_AUTH'', Getenv ''GHCR_IO_USER'',
         Getenv ''GHCR_IO_PASSWORD'',
         Do (token_request (private_client ''GHCR_IO'' token_body) ''eDp5'')]) \<and>
   getBearerToken (private_client ''GHCR_IO'' token_body)
       (example_world [''GHCR_IO_USER'' \<mapsto> ''x'', ''GHCR_IO_PASSWORD'' \<mapsto> ''y'',
                       ''GITHUB_TOKEN'' \<mapsto> ''xyz'']) []
     = ((''eHl6'', None),
        [Getenv ''GHCR_IO_TOKEN'', Getenv ''GHCR_IO_AUTH'', Getenv ''GHCR_IO_USER'',
         Getenv ''GHCR_IO_PASSWORD'',
         Do (token_request (private_client ''GHCR_IO'' token_body) ''eDp5''),
         Getenv ''GITHUB_TOKEN'']) \<and>
   getBearerToken (private_client ''GHCR_IO'' token_body)
       (example_world [''GHCR_IO_USER'' \<mapsto> ''x'', ''GHCR_IO_PASSWORD'' \<mapsto> ''y'']) []
     = (([], Some (Errorf ''unexpected response code 401'')),
        [Getenv ''GHCR_IO_TOKEN'', Getenv ''GHCR_IO_AUTH'', Getenv ''GHCR_IO_USER'',
         Getenv ''GHCR_IO_PASSWORD'',
         Do (token_request (private_client ''GHCR_IO'' token_body) ''eDp5''),
         Getenv ''GITHUB_TOKEN'']) \<and>
   getBearerToken (private_client ''QUAY_IO'' token_body)
       (example_world [''QUAY_IO_USER'' \<mapsto> ''x'', ''QUAY_IO_PASSWORD'' \<mapsto> ''y'',
                       ''GITHUB_TOKEN'' \<mapsto> ''xyz'']) []
     = (([], Some (Errorf ''unexpected response code 401'')),
        [Getenv ''QUAY_IO_TOKEN'', Getenv ''QUAY_IO_AUTH'', Getenv ''QUAY_IO_USER'',
         Getenv ''QUAY_IO_PASSWORD'',
         Do (token_request (private_client ''QUAY_IO'' token_body) ''eDp5'')])"
proof -
  let ?g = "private_client ''GHCR_IO'' token_body"
  let ?q = "private_client ''QUAY_IO'' token_body"
  let ?w1 = "example_world [''GHCR_IO_USER'' \<mapsto> ''x'', ''GHCR_IO_PASSWORD'' \<mapsto> ''y'',
                            ''GITHUB_TOKEN'' \<mapsto> ''xyz'']"
  let ?w2 = "example_world [''GHCR_IO_USER'' \<mapsto> ''x'', ''GHCR_IO_PASSWORD'' \<mapsto> ''y'']"
  let ?w3 = "example_world [''QUAY_IO_USER'' \<mapsto> ''x'', ''QUAY_IO_PASSWORD'' \<mapsto> ''y'',
                            ''GITHUB_TOKEN'' \<mapsto> ''xyz'']"
  let ?tr = "\<lambda>n. [Getenv (n @ ''_TOKEN''), Getenv (n @ ''_AUTH''), Getenv (n @ ''_USER''),
                   Getenv (n @ ''_PASSWORD''),
                   Do (token_request (private_client n token_body) ''eDp5'')]"
  have xy: "EncodeToString ''x:y'' = ''eDp5''" and xyz: "EncodeToString ''xyz'' = ''eHl6''"
    by (simp_all add: encode_def encodeStd_def)
  have refused: "retrieveBearerToken (private_client n token_body) (example_world env) ''eDp5'' tr
      = (([], Some (Errorf ''unexpected response code 401'')),
         tr @ [Do (token_request (private_client n token_body) ''eDp5'')])" for n env tr
    by (simp add: retrieveBearerToken_sent private_registry_token Sprintf_d_401)
  have e1: "getBearerTokenFromAuthToken ?g ?w1 ([] @ [Getenv (RegistryName ?g @ ''_TOKEN'')])
      = (([], Some (Errorf ''unexpected response code 401'')), ?tr ''GHCR_IO'')"
    using xy by (simp add: getBearerTokenFromAuthToken_eq refused)
  have e2: "getBearerTokenFromAuthToken ?g ?w2 ([] @ [Getenv (RegistryName ?g @ ''_TOKEN'')])
      = (([], Some (Errorf ''unexpected response code 401'')), ?tr ''GHCR_IO'')"
    using xy by (simp add: getBearerTokenFromAuthToken_eq refused)
  have e3: "getBearerTokenFromAuthToken ?q ?w3 ([] @ [Getenv (RegistryName ?q @ ''_TOKEN'')])
      = (([], Some (Errorf ''unexpected response code 401'')), ?tr ''QUAY_IO'')"
    using xy by (simp add: getBearerTokenFromAuthToken_eq refused)
  have t1: "getenv ?w1 (RegistryName ?g @ ''_TOKEN'') = []"
    and t2: "getenv ?w2 (RegistryName ?g @ ''_TOKEN'') = []"
    and t3: "getenv ?w3 (RegistryName ?q @ ''_TOKEN'') = []"
    by simp_all
  from getBearerToken_GHCR_IO_fallback [OF t1 e1] xyz
  have "getBearerToken ?g ?w1 [] = ((''eHl6'', None), ?tr ''GHCR_IO'' @ [Getenv ''GITHUB_TOKEN''])"
    by simp
  moreover from getBearerToken_GHCR_IO_fallback [OF t2 e2]
  have "getBearerToken ?g ?w2 []
      = (([], Some (Errorf ''unexpected response code 401'')),
         ?tr ''GHCR_IO'' @ [Getenv ''GITHUB_TOKEN''])"
    by simp
  moreover from getBearerToken_GHCR_IO_fallback [OF t3 e3]
  have "getBearerToken ?q ?w3 []
      = (([], Some (Errorf ''unexpected response code 401'')), ?tr ''QUAY_IO'')"
    by simp
  ultimately show ?thesis
    using e1 xyz by simp
qed

text \<open>
  C7. When the request can be built, the token exchange sends exactly one request: a
  \<open>GET\<close> to \<open>https://{registryURL}/v2/auth?service={registryURL}&scope=repository:{imagePath}:pull\<close>
  with the header \<open>Authorization: Basic {authToken}\<close>. When it is answered with a status
  (and the body was read): for 200 the body is parsed and the value of its \<open>token\<close>
  field returned, a parse error being returned as it is; for every other status the
  error is \<open>unexpected response code <status>\<close>.
\<close>

theorem retrieveBearerToken_exchange:
  assumes "NewRequest w ''GET'' (req_url (token_request r authToken)) = None"
  shows "snd (retrieveBearerToken r w authToken tr) =
           tr @ [Do \<lparr>req_method = ''GET'',
                      req_url = ''https://'' @ RegistryURL r @ ''/v2/auth?service=''
                                @ RegistryURL r @ ''&scope=repository:'' @ ImagePath r
                                @ '':pull'',
                      req_authorization = ''Basic '' @ authToken\<rparr>] \<and>
         (\<forall>status body.
            HttpClient r tr (token_request r authToken) = Response status (Inr body) \<longrightarrow>
            fst (retrieveBearerToken r w authToken tr) =
              (if status = 200
               then (case Unmarshal w body of
                       Inr token \<Rightarrow> (token, None)
                     | Inl err \<Rightarrow> ([], Some err))
               else ([], Some (Errorf (''unexpected response code '' @ Sprintf_d status)))))"
  using assms
  by (simp add: retrieveBearerToken_sent split: sum.splits) (simp add: token_request_def)

text \<open>
  The private registry answers the credentials \<open>dTpw\<close> with 200: the body
  \<open>{"token":"abc"}\<close> yields the token \<open>abc\<close>, the body \<open><html>\<close> the parser's error. Other
  credentials are answered with 401.
\<close>

theorem retrieveBearerToken_exchange_witness:
  "NewRequest (example_world Map.empty) ''GET''
     (req_url (token_request (private_client ''GHCR_IO'' token_body) ''dTpw'')) = None \<and>
   retrieveBearerToken (private_client ''GHCR_IO'' token_body) (example_world Map.empty)
       ''dTpw'' []
     = ((''abc'', None),
        [Do \<lparr>req_method = ''GET'',
              req_url = ''https://ghcr.io/v2/auth?service=ghcr.io&scope=repository:cybozu/ubuntu:pull'',
              req_authorization = ''Basic dTpw''\<rparr>]) \<and>
   fst (retrieveBearerToken (private_client ''GHCR_IO'' ''<html>'') (example_world Map.empty)
          ''dTpw'' [])
     = ([], Some (LibError ''unexpected end of JSON input'')) \<and>
   fst (retrieveBearerToken (private_client ''GHCR_IO'' token_body) (example_world Map.empty)
          ''eDp5'' [])
     = ([], Some (Errorf ''unexpected response code 401''))"
proof -
  let ?w = "example_world Map.empty"
  let ?p = "private_client ''GHCR_IO'' token_body"
  let ?o = "private_client ''GHCR_IO'' ''<html>''"
  have new: "NewRequest ?w ''GET'' u = None" for u
    by simp
  have ok: "HttpClient ?p [] (token_request ?p ''dTpw'') = Response 200 (Inr token_body)"
    by (simp add: private_registry_token)
  have garbled: "HttpClient ?o [] (token_request ?o ''dTpw'') = Response 200 (Inr ''<html>'')"
    by (simp add: private_registry_token)
  have denied: "HttpClient ?p [] (token_request ?p ''eDp5'') = Response 401 (Inr [])"
    by (simp add: private_registry_token)
  have parse: "Unmarshal ?w ''<html>'' = Inl (LibError ''unexpected end of JSON input'')"
    by (simp add: example_world_def token_body_def)
  note a = retrieveBearerToken_exchange [OF new, of ?p "''dTpw''" "[]"]
  note b = retrieveBearerToken_exchange [OF new, of ?o "''dTpw''" "[]"]
  note c = retrieveBearerToken_exchange [OF new, of ?p "''eDp5''" "[]"]
  from a [THEN conjunct1] a [THEN conjunct2, rule_format, OF ok]
  have "retrieveBearerToken ?p ?w ''dTpw'' []
      = ((''abc'', None),
         [Do \<lparr>req_method = ''GET'',
               req_url = ''https://ghcr.io/v2/auth?service=ghcr.io&scope=repository:cybozu/ubuntu:pull'',
               req_authorization = ''Basic dTpw''\<rparr>])"
    by (simp add: prod_eq_iff)
  moreover from b [THEN conjunct2, rule_format, OF garbled] parse
  have "fst (retrieveBearerToken ?o ?w ''dTpw'' [])
      = ([], Some (LibError ''unexpected end of JSON input''))"
    by simp
  moreover from c [THEN conjunct2, rule_format, OF denied]
  have "fst (retrieveBearerToken ?p ?w ''eDp5'' []) = ([], Some (Errorf ''unexpected response code 401''))"
    by (simp add: Sprintf_d_401)
  ultimately show ?thesis
    using new by simp
qed

text \<open>
  C8. Bearer-token acquisition never succeeds with an empty token: whenever
  \<open>getBearerToken\<close> returns no error, the token it returns is not empty. In particular,
  when \<open>getBearerTokenFromAuthToken\<close> comes back without an error but with the empty
  token (a 200 response whose body has an empty \<open>token\<close> field, or none), the result is
  the error \<open>could not get a bearer token for <RegistryName>\<close>.
\<close>

theorem getBearerToken_never_empty:
  "(\<forall>t tr'. getBearerToken r w tr = ((t, None), tr') \<longrightarrow> t \<noteq> []) \<and>
   (getenv w (RegistryName r @ ''_TOKEN'') = [] \<longrightarrow>
    (\<forall>tr2. getBearerTokenFromAuthToken r w (tr @ [Getenv (RegistryName r @ ''_TOKEN'')])
             = (([], None), tr2) \<longrightarrow>
           getBearerToken r w tr =
             (([], Some (Errorf (''could not get a bearer token for '' @ RegistryName r))), tr2)))"
  by (auto simp: getBearerToken_def getBearerToken_result_def os_Getenv_def EncodeToString_Nil_iff
      Let_def split: prod.splits option.splits if_splits)

text \<open>
  With the credentials \<open>u:p\<close> the private registry hands out the token \<open>abc\<close>; when it
  answers 200 with the body \<open>{}\<close>, the acquisition ends in an error.
\<close>

theorem getBearerToken_never_empty_witness:
  "getBearerToken (private_client ''GHCR_IO'' token_body)
       (example_world [''GHCR_IO_USER'' \<mapsto> ''u'', ''GHCR_IO_PASSWORD'' \<mapsto> ''p'']) []
     = ((''abc'', None),
        [Getenv ''GHCR_IO_TOKEN'', Getenv ''GHCR_IO_AUTH'', Getenv ''GHCR_IO_USER'',
         Getenv ''GHCR_IO_PASSWORD'',
         Do (token_request (private_client ''GHCR_IO'' token_body) ''dTpw'')]) \<and>
   ''abc'' \<noteq> [] \<and>
   getenv (example_world [''GHCR_IO_USER'' \<mapsto> ''u'', ''GHCR_IO_PASSWORD'' \<mapsto> ''p''])
     (RegistryName (private_client ''GHCR_IO'' ''{}'') @ ''_TOKEN'') = [] \<and>
   getBearerTokenFromAuthToken (private_client ''GHCR_IO'' ''{}'')
       (example_world [''GHCR_IO_USER'' \<mapsto> ''u'', ''GHCR_IO_PASSWORD'' \<mapsto> ''p''])
       [Getenv ''GHCR_IO_TOKEN'']
     = (([], None),
        [Getenv ''GHCR_IO_TOKEN'', Getenv ''GHCR_IO_AUTH'', Getenv ''GHCR_IO_USER'',
         Getenv ''GHCR_IO_PASSWORD'',
         Do (token_request (private_client ''GHCR_IO'' ''{}'') ''dTpw'')]) \<and>
   getBearerToken (private_client ''GHCR_IO'' ''{}'')
       (example_world [''GHCR_IO_USER'' \<mapsto> ''u'', ''GHCR_IO_PASSWORD'' \<mapsto> ''p'']) []
     = (([], Some (Errorf ''could not get a bearer token for GHCR_IO'')),
        [Getenv ''GHCR_IO_TOKEN'', Getenv ''GHCR_IO_AUTH'', Getenv ''GHCR_IO_USER'',
         Getenv ''GHCR_IO_PASSWORD'',
         Do (token_request (private_client ''GHCR_IO'' ''{}'') ''dTpw'')])"
proof -
  let ?p = "private_client ''GHCR_IO'' token_body"
  let ?e = "private_client ''GHCR_IO'' ''{}''"
  let ?w = "example_world [''GHCR_IO_USER'' \<mapsto> ''u'', ''GHCR_IO_PASSWORD'' \<mapsto> ''p'']"
  let ?tr = "\<lambda>r. [Getenv ''GHCR_IO_TOKEN'', Getenv ''GHCR_IO_AUTH'', Getenv ''GHCR_IO_USER'',
                   Getenv ''GHCR_IO_PASSWORD'', Do (token_request r ''dTpw'')]"
  have up: "EncodeToString ''u:p'' = ''dTpw''"
    by (simp add: encode_def encodeStd_def)
  have exchange: "getBearerTokenFromAuthToken ?p ?w [Getenv ''GHCR_IO_TOKEN'']
      = ((''abc'', None), ?tr ?p)"
    using up
    by (simp add: getBearerTokenFromAuthToken_eq retrieveBearerToken_sent private_registry_token)
  have empty: "getBearerTokenFromAuthToken ?e ?w ([] @ [Getenv (RegistryName ?e @ ''_TOKEN'')])
      = (([], None), ?tr ?e)"
    using up
    by (simp add: getBearerTokenFromAuthToken_eq retrieveBearerToken_sent private_registry_token)
  have unset: "getenv ?w (RegistryName ?e @ ''_TOKEN'') = []"
    by simp
  have got: "getBearerToken ?p ?w [] = ((''abc'', None), ?tr ?p)"
    using exchange
    by (simp add: getBearerToken_def getBearerToken_result_def os_Getenv_def)
  note inst = getBearerToken_never_empty [of ?p ?w "[]"]
  from inst [THEN conjunct1, rule_format, OF got]
  have nonempty: "''abc'' \<noteq> []" .
  from getBearerToken_never_empty [of ?e ?w "[]", THEN conjunct2, rule_format, OF unset empty]
  have "getBearerToken ?e ?w []
      = (([], Some (Errorf ''could not get a bearer token for GHCR_IO'')), ?tr ?e)"
    by simp
  with got nonempty unset empty show ?thesis
    by simp
qed


subsection \<open>The requests of a run\<close>

lemma retrieve_trace:
  "\<exists>new. snd (retrieve r w m e a tr) = tr @ new \<and>
         (requests new = [] \<or>
          requests new = [\<lparr>req_method = m, req_url = e, req_authorization = a\<rparr>])"
proof (cases "NewRequest w m e")
  case None
  then have "snd (retrieve r w m e a tr)
               = tr @ [Do \<lparr>req_method = m, req_url = e, req_authorization = a\<rparr>]"
    by (simp add: retrieve_sent)
  then show ?thesis by simp
next
  case (Some err)
  then have "snd (retrieve r w m e a tr) = tr @ []"
    by (simp add: retrieve_refused)
  then show ?thesis by (metis requests.simps(1))
qed

lemma checkManifestForTag_snd:
  "snd (checkManifestForTag r w bearer tag tr) =
     snd (retrieve r w ''HEAD'' (req_url (manifest_request r bearer tag))
            (req_authorization (manifest_request r bearer tag)) tr)"
  by (simp add: checkManifestForTag_def manifest_request_def manifestAPI_def
      split: prod.splits option.splits)

lemma checkManifestForTag_trace:
  "\<exists>new. snd (checkManifestForTag r w bearer tag tr) = tr @ new \<and>
         (requests new = [] \<or> requests new = [manifest_request r bearer tag])"
  using retrieve_trace [of r w "''HEAD''" "req_url (manifest_request r bearer tag)"
      "req_authorization (manifest_request r bearer tag)" tr]
  by (simp add: checkManifestForTag_snd) (simp add: manifest_request_def)

lemma retrieveBearerToken_snd:
  "snd (retrieveBearerToken r w authToken tr) =
     snd (retrieve r w ''GET'' (req_url (token_request r authToken))
            (req_authorization (token_request r authToken)) tr)"
  by (simp add: retrieveBearerToken_def token_request_def authAPI_def
      split: prod.splits option.splits sum.splits)

lemma retrieveBearerToken_trace:
  "\<exists>new. snd (retrieveBearerToken r w authToken tr) = tr @ new \<and>
         (requests new = [] \<or> requests new = [token_request r authToken])"
  using retrieve_trace [of r w "''GET''" "req_url (token_request r authToken)"
      "req_authorization (token_request r authToken)" tr]
  by (simp add: retrieveBearerToken_snd) (simp add: token_request_def)

text \<open>
  Whatever the environment holds, \<open>getBearerTokenFromAuthToken\<close> reads
  \<open>{REGISTRY_NAME}_AUTH\<close> first and sends at most the request of the exchange.
\<close>

lemma getBearerTokenFromAuthToken_trace:
  "\<exists>new. snd (getBearerTokenFromAuthToken r w tr)
           = tr @ Getenv (RegistryName r @ ''_AUTH'') # new \<and>
         (requests new = [] \<or> (\<exists>a. requests new = [token_request r a]))"
proof -
  let ?A = "Getenv (RegistryName r @ ''_AUTH'')"
  let ?U = "Getenv (RegistryName r @ ''_USER'')"
  let ?P = "Getenv (RegistryName r @ ''_PASSWORD'')"
  let ?auth = "getenv w (RegistryName r @ ''_AUTH'')"
  let ?user = "getenv w (RegistryName r @ ''_USER'')"
  let ?pass = "getenv w (RegistryName r @ ''_PASSWORD'')"
  have ex: "\<exists>new. snd (retrieveBearerToken r w a (tr @ ?A # ks)) = tr @ ?A # new \<and>
              (requests new = [] \<or> (\<exists>a. requests new = [token_request r a]))"
    if "requests ks = []" for a ks
  proof -
    from retrieveBearerToken_trace [of r w a "tr @ ?A # ks"]
    obtain new where new: "snd (retrieveBearerToken r w a (tr @ ?A # ks)) = (tr @ ?A # ks) @ new"
      "requests new = [] \<or> requests new = [token_request r a]"
      by blast
    from new(1) have "snd (retrieveBearerToken r w a (tr @ ?A # ks)) = tr @ ?A # (ks @ new)"
      by simp
    moreover from new(2) that
    have "requests (ks @ new) = [] \<or> (\<exists>a. requests (ks @ new) = [token_request r a])"
      by auto
    ultimately show ?thesis by blast
  qed
  show ?thesis
  proof (cases "?auth \<noteq> []")
    case True
    then have "getBearerTokenFromAuthToken r w tr = retrieveBearerToken r w ?auth (tr @ ?A # [])"
      by (simp add: getBearerTokenFromAuthToken_eq)
    with ex [of "[]" ?auth] show ?thesis
      by simp
  next
    case False
    show ?thesis
    proof (cases "?user = [] \<or> ?pass = []")
      case True
      with False have "snd (getBearerTokenFromAuthToken r w tr) = tr @ ?A # [?U, ?P]"
        by (simp add: getBearerTokenFromAuthToken_eq)
      moreover have "requests [?U, ?P] = []" by simp
      ultimately show ?thesis by blast
    next
      case nonempty: False
      with False have "getBearerTokenFromAuthToken r w tr
          = retrieveBearerToken r w (EncodeToString (?user @ '':'' @ ?pass)) (tr @ ?A # [?U, ?P])"
        by (simp add: getBearerTokenFromAuthToken_eq)
      with ex [of "[?U, ?P]" "EncodeToString (?user @ '':'' @ ?pass)"] show ?thesis
        by simp
    qed
  qed
qed

lemma getBearerToken_snd:
  assumes "getenv w (RegistryName r @ ''_TOKEN'') = []"
  shows "snd (getBearerToken r w tr)
           = snd (getBearerTokenFromAuthToken r w (tr @ [Getenv (RegistryName r @ ''_TOKEN'')]))
         \<or> snd (getBearerToken r w tr)
           = snd (getBearerTokenFromAuthToken r w (tr @ [Getenv (RegistryName r @ ''_TOKEN'')]))
             @ [Getenv ''GITHUB_TOKEN'']"
  using assms
  by (simp add: getBearerToken_def getBearerToken_result_def os_Getenv_def Let_def
      split: prod.splits option.splits)

lemma getBearerToken_trace:
  "\<exists>new. snd (getBearerToken r w tr) = tr @ new \<and>
         (requests new = [] \<or> (\<exists>a. requests new = [token_request r a])) \<and>
         (getenv w (RegistryName r @ ''_TOKEN'') \<noteq> [] \<longrightarrow> requests new = [])"
proof (cases "getenv w (RegistryName r @ ''_TOKEN'') = []")
  case False
  then have "snd (getBearerToken r w tr) = tr @ [Getenv (RegistryName r @ ''_TOKEN'')]"
    by (simp add: getBearerToken_env_token)
  moreover have "requests [Getenv (RegistryName r @ ''_TOKEN'')] = []"
    by simp
  ultimately show ?thesis by blast
next
  case True
  let ?T = "Getenv (RegistryName r @ ''_TOKEN'')"
  let ?A = "Getenv (RegistryName r @ ''_AUTH'')"
  from getBearerTokenFromAuthToken_trace [of r w "tr @ [?T]"]
  obtain new where new:
    "snd (getBearerTokenFromAuthToken r w (tr @ [?T])) = (tr @ [?T]) @ ?A # new"
    "requests new = [] \<or> (\<exists>a. requests new = [token_request r a])"
    by blast
  from getBearerToken_snd [OF True, of tr] new(1)
  consider "snd (getBearerToken r w tr) = tr @ (?T # ?A # new)"
    | "snd (getBearerToken r w tr) = tr @ (?T # ?A # new @ [Getenv ''GITHUB_TOKEN''])"
    by auto
  then show ?thesis
  proof cases
    case 1
    moreover from new(2)
    have "requests (?T # ?A # new) = [] \<or> (\<exists>a. requests (?T # ?A # new) = [token_request r a])"
      by simp
    ultimately show ?thesis using True by blast
  next
    case 2
    moreover from new(2)
    have "requests (?T # ?A # new @ [Getenv ''GITHUB_TOKEN'']) = [] \<or>
          (\<exists>a. requests (?T # ?A # new @ [Getenv ''GITHUB_TOKEN'']) = [token_request r a])"
      by simp
    ultimately show ?thesis using True by blast
  qed
qed

lemma getBearerToken_nonempty:
  "getBearerToken r w tr = ((t, None), tr') \<Longrightarrow> t \<noteq> []"
  by (auto simp: getBearerToken_def getBearerToken_result_def os_Getenv_def EncodeToString_Nil_iff
      Let_def split: prod.splits option.splits if_splits)

text \<open>The three ways through \<open>IsTagExist\<close>.\<close>

lemma IsTagExist_cases:
  obtains (anonymous) found tr1 where
      "checkManifestForTag r w [] tag tr = ((found, None), tr1)"
      "IsTagExist r w tag tr = ((found, None), tr1)"
  | (no_token) found e tr1 t err tr2 where
      "checkManifestForTag r w [] tag tr = ((found, Some e), tr1)"
      "getBearerToken r w tr1 = ((t, Some err), tr2)"
      "IsTagExist r w tag tr = ((False, Some err), tr2)"
  | (authenticated) found e tr1 t tr2 where
      "checkManifestForTag r w [] tag tr = ((found, Some e), tr1)"
      "getBearerToken r w tr1 = ((t, None), tr2)"
      "IsTagExist r w tag tr = checkManifestForTag r w t tag tr2"
proof -
  obtain found err1 tr1 where c: "checkManifestForTag r w [] tag tr = ((found, err1), tr1)"
    by (metis surj_pair)
  obtain t err2 tr2 where g: "getBearerToken r w tr1 = ((t, err2), tr2)"
    by (metis surj_pair)
  show thesis
  proof (cases err1)
    case None
    with c show thesis by (intro anonymous [of found tr1]) (simp_all add: IsTagExist_def)
  next
    case (Some e)
    show thesis
    proof (cases err2)
      case None
      with c g Some show thesis
        by (intro authenticated [of found e tr1 t tr2]) (simp_all add: IsTagExist_def)
    next
      case (Some err)
      with c g \<open>err1 = Some e\<close> show thesis
        by (intro no_token [of found e tr1 t err tr2]) (simp_all add: IsTagExist_def)
    qed
  qed
qed

lemma subseq_of_three:
  assumes "x = [] \<or> x = [p]" and "y = [] \<or> y = [q]" and "z = [] \<or> z = [s]"
  shows "subseq (x @ y @ z) [p, q, s]" and "length (x @ y @ z) \<le> 3"
  using assms by auto

text \<open>
  C9. Every call of \<open>IsTagExist\<close> extends the trace by at most three requests, and these
  are, in this order and each at most once, the anonymous \<open>HEAD\<close> for the manifest, a
  \<open>GET\<close> to the token endpoint, and a \<open>HEAD\<close> for the manifest with a non-empty bearer
  token. When the anonymous check returns without an error, the call issues exactly that
  one request. When \<open>{REGISTRY_NAME}_TOKEN\<close> supplies the bearer token, no \<open>GET\<close> is
  among the requests. (One request is one call of \<open>HttpClient.Do\<close>.)
\<close>

theorem IsTagExist_at_most_three_requests:
  "\<exists>new. snd (IsTagExist r w tag tr) = tr @ new \<and>
     length (requests new) \<le> 3 \<and>
     (\<exists>a b. b \<noteq> [] \<and>
        subseq (requests new)
          [manifest_request r [] tag, token_request r a, manifest_request r b tag]) \<and>
     (snd (fst (checkManifestForTag r w [] tag tr)) = None \<longrightarrow>
        requests new = [manifest_request r [] tag]) \<and>
     (getenv w (RegistryName r @ ''_TOKEN'') \<noteq> [] \<longrightarrow>
        (\<forall>q \<in> set (requests new). req_method q \<noteq> ''GET''))"
proof (cases r w tag tr rule: IsTagExist_cases)
  case (anonymous found tr1)
  let ?new = "[Do (manifest_request r [] tag)]"
  from anonymous have "snd (IsTagExist r w tag tr) = tr @ ?new"
    by (simp add: checkManifestForTag_nil_error)
  moreover have "\<exists>a b. b \<noteq> [] \<and> subseq (requests ?new)
      [manifest_request r [] tag, token_request r a, manifest_request r b tag]"
    by (intro exI [of _ "[]"] exI [of _ "''b''"]) simp
  moreover have "requests ?new = [manifest_request r [] tag]"
    by simp
  ultimately show ?thesis
    by (intro exI [of _ ?new]) simp
next
  case (no_token found e tr1 t err tr2)
  from checkManifestForTag_trace [of r w "[]" tag tr] no_token(1)
  obtain new0 where new0: "tr1 = tr @ new0"
    "requests new0 = [] \<or> requests new0 = [manifest_request r [] tag]"
    by auto
  from getBearerToken_trace [of r w tr1] no_token(2)
  obtain new1 where new1: "tr2 = tr1 @ new1"
    "requests new1 = [] \<or> (\<exists>a. requests new1 = [token_request r a])"
    "getenv w (RegistryName r @ ''_TOKEN'') \<noteq> [] \<longrightarrow> requests new1 = []"
    by auto
  from new1(2) obtain a where a: "requests new1 = [] \<or> requests new1 = [token_request r a]"
    by blast
  have z: "[] = [] \<or> [] = [manifest_request r ''b'' tag]"
    by simp
  let ?new = "new0 @ new1"
  have "snd (IsTagExist r w tag tr) = tr @ ?new"
    using no_token(3) new0(1) new1(1) by simp
  moreover have "length (requests ?new) \<le> 3"
    using subseq_of_three(2) [OF new0(2) a z] by simp
  moreover have "\<exists>a b. b \<noteq> [] \<and> subseq (requests ?new)
      [manifest_request r [] tag, token_request r a, manifest_request r b tag]"
    using subseq_of_three(1) [OF new0(2) a z]
    by (intro exI [of _ a] exI [of _ "''b''"]) simp
  moreover have "snd (fst (checkManifestForTag r w [] tag tr)) = None \<longrightarrow>
      requests ?new = [manifest_request r [] tag]"
    using no_token(1) by simp
  moreover have "\<forall>q \<in> set (requests ?new). req_method q \<noteq> ''GET''"
    if "getenv w (RegistryName r @ ''_TOKEN'') \<noteq> []"
    using that new1(3) new0(2) by auto
  ultimately show ?thesis
    by (intro exI [of _ ?new]) blast
next
  case (authenticated found e tr1 t tr2)
  from checkManifestForTag_trace [of r w "[]" tag tr] authenticated(1)
  obtain new0 where new0: "tr1 = tr @ new0"
    "requests new0 = [] \<or> requests new0 = [manifest_request r [] tag]"
    by auto
  from getBearerToken_trace [of r w tr1] authenticated(2)
  obtain new1 where new1: "tr2 = tr1 @ new1"
    "requests new1 = [] \<or> (\<exists>a. requests new1 = [token_request r a])"
    "getenv w (RegistryName r @ ''_TOKEN'') \<noteq> [] \<longrightarrow> requests new1 = []"
    by auto
  from new1(2) obtain a where a: "requests new1 = [] \<or> requests new1 = [token_request r a]"
    by blast
  from checkManifestForTag_trace [of r w t tag tr2]
  obtain new2 where new2: "snd (checkManifestForTag r w t tag tr2) = tr2 @ new2"
    "requests new2 = [] \<or> requests new2 = [manifest_request r t tag]"
    by blast
  have t: "t \<noteq> []"
    using authenticated(2) by (rule getBearerToken_nonempty)
  let ?new = "new0 @ new1 @ new2"
  have "snd (IsTagExist r w tag tr) = tr @ ?new"
    using authenticated(3) new0(1) new1(1) new2(1) by simp
  moreover have "length (requests ?new) \<le> 3"
    using subseq_of_three(2) [OF new0(2) a new2(2)] by simp
  moreover have "\<exists>a b. b \<noteq> [] \<and> subseq (requests ?new)
      [manifest_request r [] tag, token_request r a, manifest_request r b tag]"
    using subseq_of_three(1) [OF new0(2) a new2(2)] t
    by (intro exI [of _ a] exI [of _ t]) simp
  moreover have "snd (fst (checkManifestForTag r w [] tag tr)) = None \<longrightarrow>
      requests ?new = [manifest_request r [] tag]"
    using authenticated(1) by simp
  moreover have "\<forall>q \<in> set (requests ?new). req_method q \<noteq> ''GET''"
    if "getenv w (RegistryName r @ ''_TOKEN'') \<noteq> []"
    using that new1(3) new0(2) new2(2) by auto
  ultimately show ?thesis
    by (intro exI [of _ ?new]) blast
qed


text \<open>
  Three runs: on the public registry the call issues the anonymous request alone; on the
  private registry with the credentials \<open>u:p\<close> it issues all three requests; with
  \<open>GHCR_IO_TOKEN=abc\<close> it issues the two \<open>HEAD\<close> requests and no \<open>GET\<close>.
\<close>

theorem IsTagExist_at_most_three_requests_witness:
  "snd (fst (checkManifestForTag public_client (example_world Map.empty) [] ''22.04'' [])) = None \<and>
   requests (snd (IsTagExist public_client (example_world Map.empty) ''22.04'' []))
     = [manifest_request public_client [] ''22.04''] \<and>
   requests (snd (IsTagExist (private_client ''GHCR_IO'' token_body)
        (example_world [''GHCR_IO_USER'' \<mapsto> ''u'', ''GHCR_IO_PASSWORD'' \<mapsto> ''p''])
        ''22.04'' []))
     = [manifest_request (private_client ''GHCR_IO'' token_body) [] ''22.04'',
        token_request (private_client ''GHCR_IO'' token_body) ''dTpw'',
        manifest_request (private_client ''GHCR_IO'' token_body) ''abc'' ''22.04''] \<and>
   length (requests (snd (IsTagExist (private_client ''GHCR_IO'' token_body)
        (example_world [''GHCR_IO_USER'' \<mapsto> ''u'', ''GHCR_IO_PASSWORD'' \<mapsto> ''p''])
        ''22.04'' []))) \<le> 3 \<and>
   getenv (example_world [''GHCR_IO_TOKEN'' \<mapsto> ''abc''])
     (RegistryName (private_client ''GHCR_IO'' token_body) @ ''_TOKEN'') \<noteq> [] \<and>
   map req_method (requests (snd (IsTagExist (private_client ''GHCR_IO'' token_body)
        (example_world [''GHCR_IO_TOKEN'' \<mapsto> ''abc'']) ''22.04'' [])))
     = [''HEAD'', ''HEAD''] \<and>
   ''GET'' \<notin> set (map req_method (requests (snd (IsTagExist
        (private_client ''GHCR_IO'' token_body)
        (example_world [''GHCR_IO_TOKEN'' \<mapsto> ''abc'']) ''22.04'' []))))"
proof -
  let ?p = "private_client ''GHCR_IO'' token_body"
  let ?w0 = "example_world Map.empty"
  let ?w1 = "example_world [''GHCR_IO_USER'' \<mapsto> ''u'', ''GHCR_IO_PASSWORD'' \<mapsto> ''p'']"
  let ?w2 = "example_world [''GHCR_IO_TOKEN'' \<mapsto> ''abc'']"
  let ?anon = "Do (manifest_request ?p [] ''22.04'')"
  have up: "EncodeToString ''u:p'' = ''dTpw''"
    by (simp add: encode_def encodeStd_def)
  have anon: "checkManifestForTag ?p (example_world env) [] ''22.04'' []
      = ((False, Some (Errorf ''unexpected response registry API: 401'')), [?anon])" for env
    by (simp add: checkManifestForTag_sent private_registry_manifest Sprintf_d_401)
  have token1: "getBearerToken ?p ?w1 [?anon]
      = ((''abc'', None),
         [?anon, Getenv ''GHCR_IO_TOKEN'', Getenv ''GHCR_IO_AUTH'', Getenv ''GHCR_IO_USER'',
          Getenv ''GHCR_IO_PASSWORD'', Do (token_request ?p ''dTpw'')])"
    using up
    by (simp add: getBearerToken_def getBearerToken_result_def os_Getenv_def
        getBearerTokenFromAuthToken_eq retrieveBearerToken_sent private_registry_token)
  have token2: "getBearerToken ?p ?w2 [?anon] = ((''abc'', None), [?anon, Getenv ''GHCR_IO_TOKEN''])"
    by (simp add: getBearerToken_def os_Getenv_def)
  have run1: "requests (snd (IsTagExist ?p ?w1 ''22.04'' []))
      = [manifest_request ?p [] ''22.04'', token_request ?p ''dTpw'',
         manifest_request ?p ''abc'' ''22.04'']"
    by (simp add: IsTagExist_def anon token1 checkManifestForTag_sent)
  have run2: "map req_method (requests (snd (IsTagExist ?p ?w2 ''22.04'' []))) = [''HEAD'', ''HEAD'']"
    by (simp add: IsTagExist_def anon token2 checkManifestForTag_sent)
  have public: "snd (fst (checkManifestForTag public_client ?w0 [] ''22.04'' [])) = None"
    by (simp add: checkManifestForTag_sent public_registry_22_04)
  have set: "getenv ?w2 (RegistryName ?p @ ''_TOKEN'') \<noteq> []"
    by simp
  from IsTagExist_at_most_three_requests [of public_client ?w0 "''22.04''" "[]"] public
  have one: "requests (snd (IsTagExist public_client ?w0 ''22.04'' []))
      = [manifest_request public_client [] ''22.04'']"
    by auto
  from IsTagExist_at_most_three_requests [of ?p ?w1 "''22.04''" "[]"]
  have three: "length (requests (snd (IsTagExist ?p ?w1 ''22.04'' []))) \<le> 3"
    by auto
  from IsTagExist_at_most_three_requests [of ?p ?w2 "''22.04''" "[]"] set
  have "\<forall>q \<in> set (requests (snd (IsTagExist ?p ?w2 ''22.04'' []))). req_method q \<noteq> ''GET''"
    by auto
  then have no_get: "''GET'' \<notin> set (map req_method (requests (snd (IsTagExist ?p ?w2 ''22.04'' []))))"
    by auto
  from public one run1 three set run2 no_get show ?thesis
    by blast
qed

subsection \<open>Empty and unset variables\<close>

lemma getenv_empty_unset:
  "getenv (w\<lparr>environ := (environ w)(k \<mapsto> [])\<rparr>) = getenv (w\<lparr>environ := (environ w)(k := None)\<rparr>)"
  by (rule ext) (simp add: getenv_def)

lemma retrieve_environ [simp]:
  "retrieve r (w\<lparr>environ := env\<rparr>) m e a tr = retrieve r w m e a tr"
  by (simp add: retrieve_def)

lemma retrieveBearerToken_environ [simp]:
  "retrieveBearerToken r (w\<lparr>environ := env\<rparr>) a tr = retrieveBearerToken r w a tr"
  by (simp add: retrieveBearerToken_def split: prod.splits option.splits)

lemma checkManifestForTag_environ [simp]:
  "checkManifestForTag r (w\<lparr>environ := env\<rparr>) b tag tr = checkManifestForTag r w b tag tr"
  by (simp add: checkManifestForTag_def)

lemma getAuthTokenFromCredentials_empty_unset:
  "getAuthTokenFromCredentials r (w\<lparr>environ := (environ w)(k \<mapsto> [])\<rparr>) tr
     = getAuthTokenFromCredentials r (w\<lparr>environ := (environ w)(k := None)\<rparr>) tr"
  by (simp add: getAuthTokenFromCredentials_def os_Getenv_def getenv_empty_unset)

lemma getBearerTokenFromAuthToken_empty_unset:
  "getBearerTokenFromAuthToken r (w\<lparr>environ := (environ w)(k \<mapsto> [])\<rparr>) tr
     = getBearerTokenFromAuthToken r (w\<lparr>environ := (environ w)(k := None)\<rparr>) tr"
  by (simp add: getBearerTokenFromAuthToken_def os_Getenv_def getenv_empty_unset
      getAuthTokenFromCredentials_empty_unset Let_def
      split: prod.splits option.splits)

lemma getBearerToken_empty_unset:
  "getBearerToken r (w\<lparr>environ := (environ w)(k \<mapsto> [])\<rparr>) tr
     = getBearerToken r (w\<lparr>environ := (environ w)(k := None)\<rparr>) tr"
  by (simp add: getBearerToken_def os_Getenv_def getenv_empty_unset
      getBearerTokenFromAuthToken_empty_unset Let_def
      split: prod.splits option.splits)

lemma IsTagExist_empty_unset:
  "IsTagExist r (w\<lparr>environ := (environ w)(k \<mapsto> [])\<rparr>) tag tr
     = IsTagExist r (w\<lparr>environ := (environ w)(k := None)\<rparr>) tag tr"
  by (simp add: IsTagExist_def getBearerToken_empty_unset split: prod.splits option.splits)

lemma getBearerToken_reads_AUTH:
  assumes "getenv w (RegistryName r @ ''_TOKEN'') = []"
  shows "prefix (tr @ [Getenv (RegistryName r @ ''_TOKEN''), Getenv (RegistryName r @ ''_AUTH'')])
           (snd (getBearerToken r w tr))"
proof -
  let ?T = "Getenv (RegistryName r @ ''_TOKEN'')"
  let ?A = "Getenv (RegistryName r @ ''_AUTH'')"
  from getBearerTokenFromAuthToken_trace [of r w "tr @ [?T]"]
  obtain new where "snd (getBearerTokenFromAuthToken r w (tr @ [?T])) = (tr @ [?T]) @ ?A # new"
    by blast
  with getBearerToken_snd [OF assms, of tr]
  have "snd (getBearerToken r w tr) = (tr @ [?T, ?A]) @ new
        \<or> snd (getBearerToken r w tr) = (tr @ [?T, ?A]) @ new @ [Getenv ''GITHUB_TOKEN'']"
    by auto
  then show ?thesis
    by (metis prefixI)
qed

lemma getBearerTokenFromAuthToken_reads_credentials:
  assumes "getenv w (RegistryName r @ ''_AUTH'') = []"
  shows "prefix (tr @ [Getenv (RegistryName r @ ''_AUTH''), Getenv (RegistryName r @ ''_USER''),
                       Getenv (RegistryName r @ ''_PASSWORD'')])
           (snd (getBearerTokenFromAuthToken r w tr))"
proof -
  let ?ks = "[Getenv (RegistryName r @ ''_AUTH''), Getenv (RegistryName r @ ''_USER''),
              Getenv (RegistryName r @ ''_PASSWORD'')]"
  have "snd (getBearerTokenFromAuthToken r w tr) = tr @ ?ks
        \<or> (\<exists>a. getBearerTokenFromAuthToken r w tr = retrieveBearerToken r w a (tr @ ?ks))"
    using assms by (auto simp: getBearerTokenFromAuthToken_eq)
  then show ?thesis
  proof
    assume "snd (getBearerTokenFromAuthToken r w tr) = tr @ ?ks"
    then show ?thesis by simp
  next
    assume "\<exists>a. getBearerTokenFromAuthToken r w tr = retrieveBearerToken r w a (tr @ ?ks)"
    then obtain a where "getBearerTokenFromAuthToken r w tr = retrieveBearerToken r w a (tr @ ?ks)"
      by blast
    with retrieveBearerToken_trace [of r w a "tr @ ?ks"]
    obtain new where "snd (getBearerTokenFromAuthToken r w tr) = (tr @ ?ks) @ new"
      by auto
    then show ?thesis
      by (metis prefixI)
  qed
qed

text \<open>
  C10. A variable set to the empty string is treated like a variable that is not set:
  for every variable name \<open>k\<close>, each function of the cascade, and \<open>IsTagExist\<close>, returns
  the same result and leaves the same trace in the world where \<open>k\<close> is empty as in the
  world where \<open>k\<close> is unset. In particular (the other four conjuncts, in the order of the
  cascade): with an empty \<open>{REGISTRY_NAME}_TOKEN\<close> the acquisition goes on to read
  \<open>{REGISTRY_NAME}_AUTH\<close>; with an empty \<open>{REGISTRY_NAME}_AUTH\<close> it goes on to read
  \<open>{REGISTRY_NAME}_USER\<close> and \<open>{REGISTRY_NAME}_PASSWORD\<close>; an empty user or password gives
  the error \<open>could not get credentials for <RegistryName>\<close>; and with an empty
  \<open>GITHUB_TOKEN\<close> the error of \<open>getBearerTokenFromAuthToken\<close> is returned, also for
  \<open>GHCR_IO\<close>.
\<close>

theorem empty_variable_as_unset:
  "(getAuthTokenFromCredentials r (w\<lparr>environ := (environ w)(k \<mapsto> [])\<rparr>) tr
      = getAuthTokenFromCredentials r (w\<lparr>environ := (environ w)(k := None)\<rparr>) tr \<and>
    getBearerTokenFromAuthToken r (w\<lparr>environ := (environ w)(k \<mapsto> [])\<rparr>) tr
      = getBearerTokenFromAuthToken r (w\<lparr>environ := (environ w)(k := None)\<rparr>) tr \<and>
    getBearerToken r (w\<lparr>environ := (environ w)(k \<mapsto> [])\<rparr>) tr
      = getBearerToken r (w\<lparr>environ := (environ w)(k := None)\<rparr>) tr \<and>
    IsTagExist r (w\<lparr>environ := (environ w)(k \<mapsto> [])\<rparr>) tag tr
      = IsTagExist r (w\<lparr>environ := (environ w)(k := None)\<rparr>) tag tr) \<and>
   (environ w (RegistryName r @ ''_TOKEN'') = Some [] \<longrightarrow>
      prefix (tr @ [Getenv (RegistryName r @ ''_TOKEN''), Getenv (RegistryName r @ ''_AUTH'')])
        (snd (getBearerToken r w tr))) \<and>
   (environ w (RegistryName r @ ''_AUTH'') = Some [] \<longrightarrow>
      prefix (tr @ [Getenv (RegistryName r @ ''_AUTH''), Getenv (RegistryName r @ ''_USER''),
                    Getenv (RegistryName r @ ''_PASSWORD'')])
        (snd (getBearerTokenFromAuthToken r w tr))) \<and>
   (environ w (RegistryName r @ ''_USER'') = Some []
      \<or> environ w (RegistryName r @ ''_PASSWORD'') = Some [] \<longrightarrow>
      fst (getAuthTokenFromCredentials r w tr)
        = ([], Some (Errorf (''could not get credentials for '' @ RegistryName r)))) \<and>
   (environ w ''GITHUB_TOKEN'' = Some [] \<longrightarrow>
      getenv w (RegistryName r @ ''_TOKEN'') = [] \<longrightarrow>
      (\<forall>t err tr2.
         getBearerTokenFromAuthToken r w (tr @ [Getenv (RegistryName r @ ''_TOKEN'')])
           = ((t, Some err), tr2) \<longrightarrow>
         fst (getBearerToken r w tr) = ([], Some err)))"
proof (intro conjI impI allI)
  show "prefix (tr @ [Getenv (RegistryName r @ ''_TOKEN''), Getenv (RegistryName r @ ''_AUTH'')])
          (snd (getBearerToken r w tr))"
    if "environ w (RegistryName r @ ''_TOKEN'') = Some []"
    using that by (intro getBearerToken_reads_AUTH) (simp add: getenv_def)
  show "prefix (tr @ [Getenv (RegistryName r @ ''_AUTH''), Getenv (RegistryName r @ ''_USER''),
                      Getenv (RegistryName r @ ''_PASSWORD'')])
          (snd (getBearerTokenFromAuthToken r w tr))"
    if "environ w (RegistryName r @ ''_AUTH'') = Some []"
    using that by (intro getBearerTokenFromAuthToken_reads_credentials) (simp add: getenv_def)
  show "fst (getAuthTokenFromCredentials r w tr)
          = ([], Some (Errorf (''could not get credentials for '' @ RegistryName r)))"
    if "environ w (RegistryName r @ ''_USER'') = Some []
        \<or> environ w (RegistryName r @ ''_PASSWORD'') = Some []"
    using that by (auto simp: getAuthTokenFromCredentials_eq getenv_def)
  show "fst (getBearerToken r w tr) = ([], Some err)"
    if "environ w ''GITHUB_TOKEN'' = Some []"
      and "getenv w (RegistryName r @ ''_TOKEN'') = []"
      and "getBearerTokenFromAuthToken r w (tr @ [Getenv (RegistryName r @ ''_TOKEN'')])
             = ((t, Some err), tr2)"
    for t err tr2
    using that
    by (simp add: getBearerToken_def os_Getenv_def getenv_Some Let_def)
qed (rule getAuthTokenFromCredentials_empty_unset getBearerTokenFromAuthToken_empty_unset
    getBearerToken_empty_unset IsTagExist_empty_unset)+


text \<open>
  The private registry as \<open>GHCR_IO\<close>. An empty \<open>GHCR_IO_TOKEN\<close> changes nothing with
  respect to no variable at all. With the token, the auth token, the user and
  \<open>GITHUB_TOKEN\<close> all set to the empty string, the cascade runs to its end and reports
  the missing credentials.
\<close>

theorem empty_variable_as_unset_witness:
  "getBearerToken (private_client ''GHCR_IO'' token_body)
       (example_world [''GHCR_IO_TOKEN'' \<mapsto> []]) []
     = getBearerToken (private_client ''GHCR_IO'' token_body) (example_world Map.empty) [] \<and>
   IsTagExist (private_client ''GHCR_IO'' token_body)
       (example_world [''GHCR_IO_TOKEN'' \<mapsto> []]) ''22.04'' []
     = IsTagExist (private_client ''GHCR_IO'' token_body) (example_world Map.empty) ''22.04'' [] \<and>
   environ (example_world [''GHCR_IO_TOKEN'' \<mapsto> [], ''GHCR_IO_AUTH'' \<mapsto> [],
                           ''GHCR_IO_USER'' \<mapsto> [], ''GHCR_IO_PASSWORD'' \<mapsto> ''p'',
                           ''GITHUB_TOKEN'' \<mapsto> []])
     = [''GHCR_IO_TOKEN'' \<mapsto> [], ''GHCR_IO_AUTH'' \<mapsto> [], ''GHCR_IO_USER'' \<mapsto> [],
        ''GHCR_IO_PASSWORD'' \<mapsto> ''p'', ''GITHUB_TOKEN'' \<mapsto> []] \<and>
   prefix [Getenv ''GHCR_IO_TOKEN'', Getenv ''GHCR_IO_AUTH'']
     (snd (getBearerToken (private_client ''GHCR_IO'' token_body)
        (example_world [''GHCR_IO_TOKEN'' \<mapsto> [], ''GHCR_IO_AUTH'' \<mapsto> [],
                        ''GHCR_IO_USER'' \<mapsto> [], ''GHCR_IO_PASSWORD'' \<mapsto> ''p'',
                        ''GITHUB_TOKEN'' \<mapsto> []]) [])) \<and>
   prefix [Getenv ''GHCR_IO_AUTH'', Getenv ''GHCR_IO_USER'', Getenv ''GHCR_IO_PASSWORD'']
     (snd (getBearerTokenFromAuthToken (private_client ''GHCR_IO'' token_body)
        (example_world [''GHCR_IO_TOKEN'' \<mapsto> [], ''GHCR_IO_AUTH'' \<mapsto> [],
                        ''GHCR_IO_USER'' \<mapsto> [], ''GHCR_IO_PASSWORD'' \<mapsto> ''p'',
                        ''GITHUB_TOKEN'' \<mapsto> []]) [])) \<and>
   fst (getAuthTokenFromCredentials (private_client ''GHCR_IO'' token_body)
        (example_world [''GHCR_IO_TOKEN'' \<mapsto> [], ''GHCR_IO_AUTH'' \<mapsto> [],
                        ''GHCR_IO_USER'' \<mapsto> [], ''GHCR_IO_PASSWORD'' \<mapsto> ''p'',
                        ''GITHUB_TOKEN'' \<mapsto> []]) [])
     = ([], Some (Errorf ''could not get credentials for GHCR_IO'')) \<and>
   fst (getBearerToken (private_client ''GHCR_IO'' token_body)
        (example_world [''GHCR_IO_TOKEN'' \<mapsto> [], ''GHCR_IO_AUTH'' \<mapsto> [],
                        ''GHCR_IO_USER'' \<mapsto> [], ''GHCR_IO_PASSWORD'' \<mapsto> ''p'',
                        ''GITHUB_TOKEN'' \<mapsto> []]) [])
     = ([], Some (Errorf ''could not get credentials for GHCR_IO''))"
proof -
  let ?p = "private_client ''GHCR_IO'' token_body"
  let ?none = "example_world Map.empty"
  let ?env = "[''GHCR_IO_TOKEN'' \<mapsto> [], ''GHCR_IO_AUTH'' \<mapsto> [], ''GHCR_IO_USER'' \<mapsto> [],
               ''GHCR_IO_PASSWORD'' \<mapsto> ''p'', ''GITHUB_TOKEN'' \<mapsto> []]"
  let ?w = "example_world ?env"
  have update: "(example_world env)\<lparr>environ := env'\<rparr> = example_world env'" for env env'
    by (simp add: example_world_def)
  have token: "environ ?w (RegistryName ?p @ ''_TOKEN'') = Some []"
    and auth: "environ ?w (RegistryName ?p @ ''_AUTH'') = Some []"
    and user: "environ ?w (RegistryName ?p @ ''_USER'') = Some []
               \<or> environ ?w (RegistryName ?p @ ''_PASSWORD'') = Some []"
    and github: "environ ?w ''GITHUB_TOKEN'' = Some []"
    and unset: "getenv ?w (RegistryName ?p @ ''_TOKEN'') = []"
    by simp_all
  have failed: "getBearerTokenFromAuthToken ?p ?w ([] @ [Getenv (RegistryName ?p @ ''_TOKEN'')])
      = (([], Some (Errorf ''could not get credentials for GHCR_IO'')),
         [Getenv ''GHCR_IO_TOKEN'', Getenv ''GHCR_IO_AUTH'', Getenv ''GHCR_IO_USER'',
          Getenv ''GHCR_IO_PASSWORD''])"
    by (simp add: getBearerTokenFromAuthToken_eq)
  note same = empty_variable_as_unset [of ?p ?none "''GHCR_IO_TOKEN''" "[]" "''22.04''",
      THEN conjunct1]
  note rest = empty_variable_as_unset [of ?p ?w _ "[]", THEN conjunct2]
  from same have "getBearerToken ?p (example_world [''GHCR_IO_TOKEN'' \<mapsto> []]) []
      = getBearerToken ?p ?none []"
    by (simp add: update)
  moreover from same have "IsTagExist ?p (example_world [''GHCR_IO_TOKEN'' \<mapsto> []]) ''22.04'' []
      = IsTagExist ?p ?none ''22.04'' []"
    by (simp add: update)
  moreover from rest [THEN conjunct1, rule_format, OF token]
  have "prefix [Getenv ''GHCR_IO_TOKEN'', Getenv ''GHCR_IO_AUTH''] (snd (getBearerToken ?p ?w []))"
    by simp
  moreover from rest [THEN conjunct2, THEN conjunct1, rule_format, OF auth]
  have "prefix [Getenv ''GHCR_IO_AUTH'', Getenv ''GHCR_IO_USER'', Getenv ''GHCR_IO_PASSWORD'']
      (snd (getBearerTokenFromAuthToken ?p ?w []))"
    by simp
  moreover from rest [THEN conjunct2, THEN conjunct2, THEN conjunct1, rule_format, OF user]
  have "fst (getAuthTokenFromCredentials ?p ?w [])
      = ([], Some (Errorf ''could not get credentials for GHCR_IO''))"
    by simp
  moreover
  from rest [THEN conjunct2, THEN conjunct2, THEN conjunct2, rule_format, OF github unset failed]
  have "fst (getBearerToken ?p ?w []) = ([], Some (Errorf ''could not get credentials for GHCR_IO''))"
    by simp
  moreover have "environ ?w = ?env"
    by simp
  ultimately show ?thesis
    by blast
qed


end
